theory Spec2Isabelle
  imports Main "HOL-Library.AList"
begin

section \<open>Strings\<close>

text \<open>
  Go strings are byte sequences, here \<^typ>\<open>string\<close>.  \<open>strings.ToUpper\<close> and
  \<open>strings.ToLower\<close> belong to the Go library, not to the sources at hand: every function
  of the model that calls one of them takes it as a parameter (\<open>toUpper\<close>, \<open>toLower\<close>, and
  the field \<open>strings_ToUpper\<close> of the environment of the migration pass), and the theorems
  hold for whatever these functions are.

  The examples are strings of ASCII bytes; on these the two library functions map the
  letters \<open>a\<close> to \<open>z\<close> and \<open>A\<close> to \<open>Z\<close> to each other and leave every other byte as it is,
  which is what \<open>asciiToUpper\<close> and \<open>asciiToLower\<close> do.
\<close>

definition upper_letters :: string where
  "upper_letters = ''ABCDEFGHIJKLMNOPQRSTUVWXYZ''"

definition lower_letters :: string where
  "lower_letters = ''abcdefghijklmnopqrstuvwxyz''"

definition toLowerChar :: "char \<Rightarrow> char" where
  "toLowerChar c = (case map_of (zip upper_letters lower_letters) c of Some d \<Rightarrow> d | None \<Rightarrow> c)"

definition toUpperChar :: "char \<Rightarrow> char" where
  "toUpperChar c = (case map_of (zip lower_letters upper_letters) c of Some d \<Rightarrow> d | None \<Rightarrow> c)"

definition asciiToLower :: "string \<Rightarrow> string" where
  "asciiToLower s = map toLowerChar s"

definition asciiToUpper :: "string \<Rightarrow> string" where
  "asciiToUpper s = map toUpperChar s"

section \<open>The aggregate types\<close>

text \<open>
  The declarations of \<open>Account\<close> and of the entities it owns are not part of the
  sources at hand; the records below hold the fields that \<open>file_store.go\<close> and the
  relational engine read or write.  A Go map is an association list with distinct keys,
  the order of the list being the order in which \<open>range\<close> happens to visit the map.
  A \<open>time.Time\<close> is the distance from the zero instant, so that \<open>IsZero\<close> is \<open>= 0\<close>.
\<close>

record SetupKey =
  SetupKey_Id :: string
  SetupKey_Key :: string

record Peer =
  Peer_ID :: string
  Peer_Key :: string
  Peer_Name :: string
  Peer_DNSLabel :: string
  Peer_LastLogin :: int

record PersonalAccessToken =
  PAT_ID :: string
  PAT_HashedToken :: string

record User =
  User_Id :: string
  User_Issued :: string
  User_PATs :: "(string \<times> PersonalAccessToken) list"
  User_PATsG :: "PersonalAccessToken list"

record Group =
  Group_ID :: string
  Group_Name :: string
  Group_Issued :: string
  Group_Peers :: "string list"

record Route =
  Route_ID :: string
  Route_Peer :: string
  Route_Groups :: "string list"

record PolicyRule =
  Rule_ID :: string
  Rule_Protocol :: string
  Rule_Bidirectional :: bool

record Policy =
  Policy_ID :: string
  Policy_Rules :: "PolicyRule list"

record NameServerGroup =
  NSGroup_ID :: string
  NSGroup_Name :: string

record Settings =
  PeerLoginExpirationEnabled :: bool
  PeerLoginExpiration :: int

record Account =
  Account_Id :: string
  Account_Domain :: string
  DomainCategory :: string
  IsDomainPrimaryAccount :: bool
  Settings :: "Settings option"
  SetupKeys :: "(string \<times> SetupKey) list"
  Peers :: "(string \<times> Peer) list"
  Users :: "(string \<times> User) list"
  Groups :: "(string \<times> Group) list"
  Routes :: "(string \<times> Route) list"
  NameServerGroups :: "(string \<times> NameServerGroup) list"
  Policies :: "Policy list option"
  SetupKeysG :: "SetupKey list"
  PeersG :: "Peer list"
  UsersG :: "User list"
  GroupsG :: "Group list"
  RoutesG :: "Route list"
  NameServerGroupsG :: "NameServerGroup list"

text \<open>
  Modelled from the spec: \<open>PrivateCategory\<close>, the constant that \<open>DomainCategory\<close> is
  compared with, is declared outside the sources at hand; the spec names the two
  categories public and private.
\<close>

definition PrivateCategory :: string where
  "PrivateCategory = ''private''"

text \<open>
  Modelled from the spec: \<open>Account.Copy\<close> is declared outside the sources at hand.  The
  spec calls it an explicit, total deep copy; on values a deep copy is the same value.
  (What a copy shares with its original is the subject of the pointer model further
  down.)
\<close>

definition Account_Copy :: "Account \<Rightarrow> Account" where
  "Account_Copy a = a"

section \<open>Errors\<close>

text \<open>
  \<open>InvalidArgument\<close>, \<open>NotFound\<close> and \<open>Internal\<close> are the kinds of \<open>status.Errorf\<close>.
  \<open>IOError\<close> is an error of \<open>util.ReadJson\<close> or \<open>util.WriteJson\<close>, which the file
  engine hands on as it is; \<open>DBError\<close> is an error of the database layer, which the
  relational engine hands on as it is; \<open>NilDereference\<close> is the run-time panic of a
  method call through a nil pointer.
\<close>

datatype gorm_error = ErrRecordNotFound | ErrOther

datatype error = InvalidArgument | NotFound | Internal | IOError | DBError gorm_error | NilDereference

section \<open>The file engine\<close>

record FileStore =
  Accounts :: "(string \<times> Account) list"
  SetupKeyID2AccountID :: "string \<rightharpoonup> string"
  PeerKeyID2AccountID :: "string \<rightharpoonup> string"
  PeerID2AccountID :: "string \<rightharpoonup> string"
  UserID2AccountID :: "string \<rightharpoonup> string"
  PrivateDomain2AccountID :: "string \<rightharpoonup> string"
  HashedPAT2TokenID :: "string \<rightharpoonup> string"
  TokenID2UserID :: "string \<rightharpoonup> string"
  InstallationID :: string

text \<open>
  The file \<open>store.json\<close>: the index maps carry the tag \<open>json:"-"\<close>, so the file holds
  the accounts and the installation ID.  The file is missing, unreadable for
  \<open>util.ReadJson\<close>, or holds a store.
\<close>

record StoreFile =
  File_Accounts :: "(string \<times> Account) list"
  File_InstallationID :: string

datatype FileState = Missing | Unreadable | Content StoreFile

text \<open>\<open>persist\<close>: \<open>util.WriteJson\<close> succeeds or fails (\<open>ok\<close>), as the file system decides.\<close>

definition persist :: "bool \<Rightarrow> FileStore \<Rightarrow> FileState \<Rightarrow> FileState \<times> error option" where
  "persist ok s file =
     (if ok then (Content \<lparr>File_Accounts = Accounts s, File_InstallationID = InstallationID s\<rparr>, None)
      else (file, Some IOError))"

definition indexSetupKeys :: "(string \<Rightarrow> string) \<Rightarrow> string \<Rightarrow> (string \<times> SetupKey) list \<Rightarrow> (string \<rightharpoonup> string) \<Rightarrow> (string \<rightharpoonup> string)" where
  "indexSetupKeys toUpper accountID keys idx = fold (\<lambda>kv m. m(toUpper (fst kv) \<mapsto> accountID)) keys idx"

definition indexPeerKeys :: "string \<Rightarrow> (string \<times> Peer) list \<Rightarrow> (string \<rightharpoonup> string) \<Rightarrow> (string \<rightharpoonup> string)" where
  "indexPeerKeys accountID peers idx = fold (\<lambda>kv m. m(Peer_Key (snd kv) \<mapsto> accountID)) peers idx"

definition indexPeerIDs :: "string \<Rightarrow> (string \<times> Peer) list \<Rightarrow> (string \<rightharpoonup> string) \<Rightarrow> (string \<rightharpoonup> string)" where
  "indexPeerIDs accountID peers idx = fold (\<lambda>kv m. m(Peer_ID (snd kv) \<mapsto> accountID)) peers idx"

definition indexTokenIDs :: "string \<Rightarrow> (string \<times> PersonalAccessToken) list \<Rightarrow> (string \<rightharpoonup> string) \<Rightarrow> (string \<rightharpoonup> string)" where
  "indexTokenIDs userID pats idx = fold (\<lambda>kv m. m(PAT_ID (snd kv) \<mapsto> userID)) pats idx"

definition indexHashedPATs :: "(string \<times> PersonalAccessToken) list \<Rightarrow> (string \<rightharpoonup> string) \<Rightarrow> (string \<rightharpoonup> string)" where
  "indexHashedPATs pats idx = fold (\<lambda>kv m. m(PAT_HashedToken (snd kv) \<mapsto> PAT_ID (snd kv))) pats idx"

definition indexUser :: "string \<Rightarrow> User \<Rightarrow> FileStore \<Rightarrow> FileStore" where
  "indexUser accountID user s =
     s\<lparr>UserID2AccountID := (UserID2AccountID s)(User_Id user \<mapsto> accountID),
       TokenID2UserID := indexTokenIDs (User_Id user) (User_PATs user) (TokenID2UserID s),
       HashedPAT2TokenID := indexHashedPATs (User_PATs user) (HashedPAT2TokenID s)\<rparr>"

definition SaveAccount :: "(string \<Rightarrow> string) \<Rightarrow> bool \<Rightarrow> FileStore \<Rightarrow> FileState \<Rightarrow> Account \<Rightarrow> FileStore \<times> FileState \<times> error option" where
  "SaveAccount toUpper ok s file account =
     (if Account_Id account = '''' then (s, file, Some InvalidArgument)
      else
        let accountCopy = Account_Copy account;
            s1 = s\<lparr>Accounts := AList.update (Account_Id accountCopy) accountCopy (Accounts s)\<rparr>;
            s2 = s1\<lparr>SetupKeyID2AccountID :=
                      indexSetupKeys toUpper (Account_Id accountCopy) (SetupKeys accountCopy) (SetupKeyID2AccountID s1)\<rparr>;
            s3 = s2\<lparr>PeerKeyID2AccountID :=
                      indexPeerKeys (Account_Id accountCopy) (Peers accountCopy) (PeerKeyID2AccountID s2),
                    PeerID2AccountID :=
                      indexPeerIDs (Account_Id accountCopy) (Peers accountCopy) (PeerID2AccountID s2)\<rparr>;
            s4 = fold (\<lambda>kv. indexUser (Account_Id accountCopy) (snd kv)) (Users accountCopy) s3;
            s5 = (if DomainCategory accountCopy = PrivateCategory \<and> IsDomainPrimaryAccount accountCopy
                  then s4\<lparr>PrivateDomain2AccountID :=
                            (PrivateDomain2AccountID s4)(Account_Domain accountCopy \<mapsto> Account_Id accountCopy)\<rparr>
                  else s4);
            (file', err) = persist ok s5 file
        in (s5, file', err))"

definition getAccount :: "FileStore \<Rightarrow> string \<Rightarrow> error + Account" where
  "getAccount s accountID =
     (case map_of (Accounts s) accountID of None \<Rightarrow> Inl NotFound | Some account \<Rightarrow> Inr account)"

definition GetAccount :: "FileStore \<Rightarrow> string \<Rightarrow> error + Account" where
  "GetAccount s accountID =
     (case getAccount s accountID of Inl err \<Rightarrow> Inl err | Inr account \<Rightarrow> Inr (Account_Copy account))"

definition GetAllAccounts :: "FileStore \<Rightarrow> Account list" where
  "GetAllAccounts s = map (\<lambda>kv. Account_Copy (snd kv)) (Accounts s)"

definition GetAccountByPrivateDomain :: "(string \<Rightarrow> string) \<Rightarrow> FileStore \<Rightarrow> string \<Rightarrow> error + Account" where
  "GetAccountByPrivateDomain toLower s domain =
     (case PrivateDomain2AccountID s (toLower domain) of
        None \<Rightarrow> Inl NotFound
      | Some accountID \<Rightarrow>
          (case getAccount s accountID of Inl err \<Rightarrow> Inl err | Inr account \<Rightarrow> Inr (Account_Copy account)))"

definition GetAccountBySetupKey :: "(string \<Rightarrow> string) \<Rightarrow> FileStore \<Rightarrow> string \<Rightarrow> error + Account" where
  "GetAccountBySetupKey toUpper s setupKey =
     (case SetupKeyID2AccountID s (toUpper setupKey) of
        None \<Rightarrow> Inl NotFound
      | Some accountID \<Rightarrow>
          (case getAccount s accountID of Inl err \<Rightarrow> Inl err | Inr account \<Rightarrow> Inr (Account_Copy account)))"

definition GetAccountByUser :: "FileStore \<Rightarrow> string \<Rightarrow> error + Account" where
  "GetAccountByUser s userID =
     (case UserID2AccountID s userID of
        None \<Rightarrow> Inl NotFound
      | Some accountID \<Rightarrow>
          (case getAccount s accountID of Inl err \<Rightarrow> Inl err | Inr account \<Rightarrow> Inr (Account_Copy account)))"

text \<open>
  The two peer lookups write to the store: a stale index entry is deleted.  They return
  the store with the result.
\<close>

definition GetAccountByPeerID :: "FileStore \<Rightarrow> string \<Rightarrow> FileStore \<times> (error + Account)" where
  "GetAccountByPeerID s peerID =
     (case PeerID2AccountID s peerID of
        None \<Rightarrow> (s, Inl NotFound)
      | Some accountID \<Rightarrow>
          (case getAccount s accountID of
             Inl err \<Rightarrow> (s, Inl err)
           | Inr account \<Rightarrow>
               (case map_of (Peers account) peerID of
                  None \<Rightarrow> (s\<lparr>PeerID2AccountID := (PeerID2AccountID s)(peerID := None)\<rparr>, Inl NotFound)
                | Some _ \<Rightarrow> (s, Inr (Account_Copy account)))))"

definition GetAccountByPeerPubKey :: "FileStore \<Rightarrow> string \<Rightarrow> FileStore \<times> (error + Account)" where
  "GetAccountByPeerPubKey s peerKey =
     (case PeerKeyID2AccountID s peerKey of
        None \<Rightarrow> (s, Inl NotFound)
      | Some accountID \<Rightarrow>
          (case getAccount s accountID of
             Inl err \<Rightarrow> (s, Inl err)
           | Inr account \<Rightarrow>
               (let stale = \<not> list_ex (\<lambda>kv. Peer_Key (snd kv) = peerKey) (Peers account)
                in if stale
                   then (s\<lparr>PeerKeyID2AccountID := (PeerKeyID2AccountID s)(peerKey := None)\<rparr>, Inl NotFound)
                   else (s, Inr (Account_Copy account)))))"

definition GetTokenIDByHashedToken :: "FileStore \<Rightarrow> string \<Rightarrow> error + string" where
  "GetTokenIDByHashedToken s token =
     (case HashedPAT2TokenID s token of None \<Rightarrow> Inl NotFound | Some tokenID \<Rightarrow> Inr tokenID)"

text \<open>
  \<open>User.Copy\<close> is called on \<open>account.Users[userID]\<close>, which is nil when the account has
  no such user; the source makes no check in between.

  Modelled from the spec: \<open>User.Copy\<close> is declared outside the sources at hand; it is
  the deep copy of the user it is called on, and called through a nil pointer it reads
  the fields of nil.
\<close>

definition User_Copy :: "User option \<Rightarrow> error + User" where
  "User_Copy u = (case u of None \<Rightarrow> Inl NilDereference | Some user \<Rightarrow> Inr user)"

definition GetUserByTokenID :: "FileStore \<Rightarrow> string \<Rightarrow> error + User" where
  "GetUserByTokenID s tokenID =
     (case TokenID2UserID s tokenID of
        None \<Rightarrow> Inl NotFound
      | Some userID \<Rightarrow>
          (case UserID2AccountID s userID of
             None \<Rightarrow> Inl NotFound
           | Some accountID \<Rightarrow>
               (case getAccount s accountID of
                  Inl err \<Rightarrow> Inl err
                | Inr account \<Rightarrow> User_Copy (map_of (Users account) userID))))"

definition SaveInstallationID :: "bool \<Rightarrow> FileStore \<Rightarrow> FileState \<Rightarrow> string \<Rightarrow> FileStore \<times> FileState \<times> error option" where
  "SaveInstallationID ok s file ID =
     (let s1 = s\<lparr>InstallationID := ID\<rparr>; (file', err) = persist ok s1 file in (s1, file', err))"

definition emptyStore :: FileStore where
  "emptyStore =
     \<lparr>Accounts = [], SetupKeyID2AccountID = Map.empty, PeerKeyID2AccountID = Map.empty,
      PeerID2AccountID = Map.empty, UserID2AccountID = Map.empty,
      PrivateDomain2AccountID = Map.empty, HashedPAT2TokenID = Map.empty,
      TokenID2UserID = Map.empty, InstallationID = ''''\<rparr>"

section \<open>The migration pass of the file engine\<close>

text \<open>
  What \<open>restore\<close> takes from outside \<open>file_store.go\<close>: constants and methods declared
  elsewhere, \<open>strings.ToUpper\<close>, the generator of peer IDs (\<open>xid.New().String()\<close>) and the clock
  (\<open>time.Now().UTC()\<close>); the \<open>n\<close>-th peer that the pass visits gets \<open>xid_New n\<close> and
  \<open>time_Now n\<close> when it needs them.
\<close>

record MigrationEnv =
  strings_ToUpper :: "string \<Rightarrow> string"
  UserIssuedAPI :: string
  GroupIssuedAPI :: string
  DefaultPeerLoginExpiration :: int
  UpgradeAndFix :: "Policy \<Rightarrow> Policy"
  getPeerHostLabel :: "string \<Rightarrow> string list \<Rightarrow> string"
  xid_New :: "nat \<Rightarrow> string"
  time_Now :: "nat \<Rightarrow> int"

definition defaultSettings :: "MigrationEnv \<Rightarrow> Account \<Rightarrow> Account" where
  "defaultSettings env account =
     (if Settings account = None
      then account\<lparr>Settings := Some \<lparr>PeerLoginExpirationEnabled = False,
                                       PeerLoginExpiration = DefaultPeerLoginExpiration env\<rparr>\<rparr>
      else account)"

text \<open>
  The loop over \<open>account.Users\<close>.  It visits the keys the map had when the loop began; a
  user without an issuer is changed in place and stored once more under its own
  \<open>Id\<close>.  (An entry that this creates need not be visited: the loop would find it with
  an issuer and write the index entries it has already written.)
\<close>

definition restoreUser :: "MigrationEnv \<Rightarrow> string \<Rightarrow> string \<Rightarrow> (string \<times> User) list \<times> FileStore \<Rightarrow> (string \<times> User) list \<times> FileStore" where
  "restoreUser env accountID k st =
     (case map_of (fst st) k of
        None \<Rightarrow> st
      | Some user \<Rightarrow>
          (if User_Issued user = ''''
           then (let user' = user\<lparr>User_Issued := UserIssuedAPI env\<rparr>
                 in (AList.update (User_Id user') user' (AList.update k user' (fst st)),
                     indexUser accountID user' (snd st)))
           else (fst st, indexUser accountID user (snd st))))"

definition restoreUsers :: "MigrationEnv \<Rightarrow> string \<Rightarrow> (string \<times> User) list \<Rightarrow> FileStore \<Rightarrow> (string \<times> User) list \<times> FileStore" where
  "restoreUsers env accountID users s = fold (restoreUser env accountID) (map fst users) (users, s)"

definition upgradePolicies :: "MigrationEnv \<Rightarrow> Account \<Rightarrow> Account" where
  "upgradePolicies env account =
     account\<lparr>Policies := Some (map (UpgradeAndFix env) (case Policies account of None \<Rightarrow> [] | Some ps \<Rightarrow> ps))\<rparr>"

text \<open>
  Modelled from the spec: \<open>getPeerDNSLabels\<close> and \<open>addPeerLabelsToAccount\<close> are declared
  outside the sources at hand.  The spec has this step backfill DNS labels for peers that
  lack one: the existing labels are those of the peers that have one, and a peer
  without a label gets the label \<open>getPeerHostLabel\<close> makes from its name and the labels
  taken so far.
\<close>

definition getPeerDNSLabels :: "Account \<Rightarrow> string list" where
  "getPeerDNSLabels account = filter (\<lambda>l. l \<noteq> '''') (map (\<lambda>kv. Peer_DNSLabel (snd kv)) (Peers account))"

fun addPeerLabels :: "MigrationEnv \<Rightarrow> (string \<times> Peer) list \<Rightarrow> string list \<Rightarrow> (string \<times> Peer) list" where
  "addPeerLabels env [] labels = []"
| "addPeerLabels env (kv # rest) labels =
     (if Peer_DNSLabel (snd kv) = ''''
      then (let label = getPeerHostLabel env (Peer_Name (snd kv)) labels
            in (fst kv, (snd kv)\<lparr>Peer_DNSLabel := label\<rparr>) # addPeerLabels env rest (label # labels))
      else kv # addPeerLabels env rest labels)"

definition addPeerLabelsToAccount :: "MigrationEnv \<Rightarrow> Account \<Rightarrow> string list \<Rightarrow> Account" where
  "addPeerLabelsToAccount env account labels = account\<lparr>Peers := addPeerLabels env (Peers account) labels\<rparr>"

definition backfillPeerLabels :: "MigrationEnv \<Rightarrow> Account \<Rightarrow> Account" where
  "backfillPeerLabels env account =
     (let existingLabels = getPeerDNSLabels account
      in if length existingLabels \<noteq> length (Peers account)
         then addPeerLabelsToAccount env account existingLabels
         else account)"

definition backfillGroupIssued :: "MigrationEnv \<Rightarrow> Account \<Rightarrow> Account" where
  "backfillGroupIssued env account =
     account\<lparr>Groups := map (\<lambda>kv. (fst kv, if Group_Issued (snd kv) = ''''
                                             then (snd kv)\<lparr>Group_Issued := GroupIssuedAPI env\<rparr>
                                             else snd kv)) (Groups account)\<rparr>"

text \<open>
  Modelled from the spec: \<open>Account.GetGroupAll\<close> is declared outside the sources at
  hand.  It resolves the account's built-in group of all peers, which the source's log
  message calls the All group, and fails when the account has none.
\<close>

definition GetGroupAll :: "Account \<Rightarrow> Group option" where
  "GetGroupAll account = map_option snd (find (\<lambda>kv. Group_Name (snd kv) = ''All'') (Groups account))"

definition backfillRouteGroups :: "Group \<Rightarrow> Account \<Rightarrow> Account" where
  "backfillRouteGroups allGroup account =
     account\<lparr>Routes := map (\<lambda>kv. (fst kv, if length (Route_Groups (snd kv)) = 0
                                             then (snd kv)\<lparr>Route_Groups := [Group_ID allGroup]\<rparr>
                                             else snd kv)) (Routes account)\<rparr>"

text \<open>
  The loop that builds \<open>migrationPeers\<close>: it stamps a zero \<open>LastLogin\<close>, and gives a peer
  without an ID a new one.  It returns the peers, \<open>migrationPeers\<close> and the number of
  peers visited so far.
\<close>

fun migratePeers :: "MigrationEnv \<Rightarrow> nat \<Rightarrow> (string \<times> Peer) list \<Rightarrow> (string \<times> Peer) list \<times> (string \<times> Peer) list \<times> nat" where
  "migratePeers env n [] = ([], [], n)"
| "migratePeers env n (kv # rest) =
     (let peer1 = (if Peer_LastLogin (snd kv) = 0 then (snd kv)\<lparr>Peer_LastLogin := time_Now env n\<rparr> else snd kv);
          r = migratePeers env (Suc n) rest
      in if Peer_ID peer1 \<noteq> ''''
         then ((fst kv, peer1) # fst r, fst (snd r), snd (snd r))
         else (let peer2 = peer1\<lparr>Peer_ID := xid_New env n\<rparr>
               in ((fst kv, peer2) # fst r, (fst kv, peer2) # fst (snd r), snd (snd r))))"

definition swapPeerKeys :: "string \<Rightarrow> (string \<times> Peer) list \<Rightarrow> (string \<times> Peer) list \<times> (string \<rightharpoonup> string) \<Rightarrow> (string \<times> Peer) list \<times> (string \<rightharpoonup> string)" where
  "swapPeerKeys accountID migrationPeers st =
     fold (\<lambda>kv st'. (AList.update (Peer_ID (snd kv)) (snd kv) (AList.delete (fst kv) (fst st')),
                      (snd st')(Peer_ID (snd kv) \<mapsto> accountID)))
          migrationPeers st"

definition replaceGroupPeers :: "(string \<times> Peer) list \<Rightarrow> Group \<Rightarrow> Group" where
  "replaceGroupPeers migrationPeers grp =
     grp\<lparr>Group_Peers := map (\<lambda>peer. case map_of migrationPeers peer of Some p \<Rightarrow> Peer_ID p | None \<Rightarrow> peer)
                             (Group_Peers grp)\<rparr>"

definition replaceRoutePeer :: "(string \<times> Peer) list \<Rightarrow> Route \<Rightarrow> Route" where
  "replaceRoutePeer migrationPeers route =
     (case map_of migrationPeers (Route_Peer route) of
        Some peer \<Rightarrow> route\<lparr>Route_Peer := Peer_ID peer\<rparr>
      | None \<Rightarrow> route)"

text \<open>
  The migration to \<open>Peer.ID\<close> from \<open>Peer.Key\<close>, the last block of the loop body: the
  peers that got a new ID are stored under it, the peer-ID index gets the new IDs, and
  the groups and routes that refer to such a peer by its old key refer to it by its ID.
\<close>

definition migratePeerIDs :: "MigrationEnv \<Rightarrow> string \<Rightarrow> Account \<Rightarrow> FileStore \<Rightarrow> nat \<Rightarrow> Account \<times> FileStore \<times> nat" where
  "migratePeerIDs env accountID account s n =
     (let m = migratePeers env n (Peers account);
          migrationPeers = fst (snd m);
          account7 = account\<lparr>Peers := fst m\<rparr>
      in if length migrationPeers > 0
         then (let sw = swapPeerKeys accountID migrationPeers (Peers account7, PeerID2AccountID s);
                   account8 = account7\<lparr>Peers := fst sw,
                                       Groups := map (\<lambda>kv. (fst kv, replaceGroupPeers migrationPeers (snd kv))) (Groups account7),
                                       Routes := map (\<lambda>kv. (fst kv, replaceRoutePeer migrationPeers (snd kv))) (Routes account7)\<rparr>
               in (account8, s\<lparr>PeerID2AccountID := snd sw\<rparr>, snd (snd m)))
         else (account7, s, snd (snd m)))"

text \<open>
  The body of the loop over \<open>store.Accounts\<close>, for the account stored under \<open>accountID\<close>.
  \<open>s\<close> carries the index maps and \<open>n\<close> counts the peers visited.  When \<open>GetGroupAll\<close>
  fails the source logs the error and goes on to the next account (\<open>continue\<close>).
\<close>

definition restoreAccount :: "MigrationEnv \<Rightarrow> string \<Rightarrow> Account \<Rightarrow> FileStore \<Rightarrow> nat \<Rightarrow> Account \<times> FileStore \<times> nat" where
  "restoreAccount env accountID account s n =
     (let account1 = defaultSettings env account;
          s1 = s\<lparr>SetupKeyID2AccountID := indexSetupKeys (strings_ToUpper env) accountID (SetupKeys account1) (SetupKeyID2AccountID s)\<rparr>;
          s2 = s1\<lparr>PeerKeyID2AccountID := indexPeerKeys accountID (Peers account1) (PeerKeyID2AccountID s1),
                  PeerID2AccountID := indexPeerIDs accountID (Peers account1) (PeerID2AccountID s1)\<rparr>;
          us = restoreUsers env accountID (Users account1) s2;
          account2 = account1\<lparr>Users := fst us\<rparr>;
          s3 = snd us;
          s4 = (if Account_Domain account2 \<noteq> '''' \<and> DomainCategory account2 = PrivateCategory
                   \<and> IsDomainPrimaryAccount account2
                then s3\<lparr>PrivateDomain2AccountID := (PrivateDomain2AccountID s3)(Account_Domain account2 \<mapsto> accountID)\<rparr>
                else s3);
          account3 = upgradePolicies env account2;
          account4 = backfillPeerLabels env account3;
          account5 = backfillGroupIssued env account4
      in case GetGroupAll account5 of
           None \<Rightarrow> (account5, s4, n)
         | Some allGroup \<Rightarrow> migratePeerIDs env accountID (backfillRouteGroups allGroup account5) s4 n)"

fun restoreAccounts :: "MigrationEnv \<Rightarrow> (string \<times> Account) list \<Rightarrow> FileStore \<Rightarrow> nat \<Rightarrow> (string \<times> Account) list \<times> FileStore \<times> nat" where
  "restoreAccounts env [] s n = ([], s, n)"
| "restoreAccounts env (kv # rest) s n =
     (let r = restoreAccount env (fst kv) (snd kv) s n;
          rs = restoreAccounts env rest (fst (snd r)) (snd (snd r))
      in ((fst kv, fst r) # fst rs, snd rs))"

text \<open>
  \<open>restore\<close>: a missing file gives a new empty store, which is persisted; a file that
  \<open>util.ReadJson\<close> cannot read is an error; otherwise the index maps are made anew, every
  account goes through the loop body, and the store is persisted.
\<close>

definition restore :: "MigrationEnv \<Rightarrow> bool \<Rightarrow> FileState \<Rightarrow> FileState \<times> (error + FileStore)" where
  "restore env ok file =
     (case file of
        Missing \<Rightarrow>
          (case persist ok emptyStore file of
             (file', Some err) \<Rightarrow> (file', Inl err)
           | (file', None) \<Rightarrow> (file', Inr emptyStore))
      | Unreadable \<Rightarrow> (file, Inl IOError)
      | Content read \<Rightarrow>
          (let store = emptyStore\<lparr>Accounts := File_Accounts read, InstallationID := File_InstallationID read\<rparr>;
               r = restoreAccounts env (Accounts store) store 0;
               store' = (fst (snd r))\<lparr>Accounts := fst r\<rparr>
           in case persist ok store' file of
                (file', Some err) \<Rightarrow> (file', Inl err)
              | (file', None) \<Rightarrow> (file', Inr store')))"

section \<open>The relational engine\<close>

text \<open>
  The database belongs to GORM and SQLite, which are not part of the sources; the model
  takes each database call as a function of the environment: what the transaction of
  \<open>SaveAccount\<close> makes of a database, and what the queries of \<open>GetAccount\<close> return.

  \<open>SaveAccount\<close> first fills the slices that GORM stores (\<open>SetupKeysG\<close>, \<open>PeersG\<close>, ...)
  from the maps, writing each map key into the ID of its element; the account it was
  given is changed by this, and is returned with the result.
\<close>

definition prepareUser :: "string \<Rightarrow> User \<Rightarrow> User" where
  "prepareUser userID user =
     (let pats = map (\<lambda>kv. (fst kv, (snd kv)\<lparr>PAT_ID := fst kv\<rparr>)) (User_PATs user)
      in user\<lparr>User_Id := userID, User_PATs := pats, User_PATsG := User_PATsG user @ map snd pats\<rparr>)"

definition prepareAccount :: "Account \<Rightarrow> Account" where
  "prepareAccount account =
     (let a1 = account\<lparr>SetupKeysG := SetupKeysG account @ map snd (SetupKeys account)\<rparr>;
          peers = map (\<lambda>kv. (fst kv, (snd kv)\<lparr>Peer_ID := fst kv\<rparr>)) (Peers a1);
          a2 = a1\<lparr>Peers := peers, PeersG := PeersG a1 @ map snd peers\<rparr>;
          users = map (\<lambda>kv. (fst kv, prepareUser (fst kv) (snd kv))) (Users a2);
          a3 = a2\<lparr>Users := users, UsersG := UsersG a2 @ map snd users\<rparr>;
          groups = map (\<lambda>kv. (fst kv, (snd kv)\<lparr>Group_ID := fst kv\<rparr>)) (Groups a3);
          a4 = a3\<lparr>Groups := groups, GroupsG := GroupsG a3 @ map snd groups\<rparr>;
          routes = map (\<lambda>kv. (fst kv, (snd kv)\<lparr>Route_ID := fst kv\<rparr>)) (Routes a4);
          a5 = a4\<lparr>Routes := routes, RoutesG := RoutesG a4 @ map snd routes\<rparr>;
          nss = map (\<lambda>kv. (fst kv, (snd kv)\<lparr>NSGroup_ID := fst kv\<rparr>)) (NameServerGroups a5)
      in a5\<lparr>NameServerGroups := nss, NameServerGroupsG := NameServerGroupsG a5 @ map snd nss\<rparr>)"

definition SqliteStore_SaveAccount :: "(Account \<Rightarrow> 'db \<Rightarrow> gorm_error + 'db) \<Rightarrow> 'db \<Rightarrow> Account \<Rightarrow> Account \<times> 'db \<times> error option" where
  "SqliteStore_SaveAccount transaction db account =
     (let account' = prepareAccount account
      in case transaction account' db of
           Inl err \<Rightarrow> (account', db, Some (DBError err))
         | Inr db' \<Rightarrow> (account', db', None))"











section \<open>Switching engines\<close>

text \<open>
  \<open>NewSqliteStoreFromFileStore\<close>: \<open>opened\<close> is what \<open>NewSqliteStore\<close> returns, \<open>saveID\<close>
  the upsert of the installation row.
\<close>

fun saveAccounts :: "(Account \<Rightarrow> 'db \<Rightarrow> gorm_error + 'db) \<Rightarrow> 'db \<Rightarrow> Account list \<Rightarrow> error + 'db" where
  "saveAccounts transaction db [] = Inr db"
| "saveAccounts transaction db (account # rest) =
     (case SqliteStore_SaveAccount transaction db account of
        (_, _, Some err) \<Rightarrow> Inl err
      | (_, db', None) \<Rightarrow> saveAccounts transaction db' rest)"

definition NewSqliteStoreFromFileStore :: "(Account \<Rightarrow> 'db \<Rightarrow> gorm_error + 'db) \<Rightarrow> (string \<Rightarrow> 'db \<Rightarrow> gorm_error + 'db) \<Rightarrow> (error + 'db) \<Rightarrow> FileStore \<Rightarrow> error + 'db" where
  "NewSqliteStoreFromFileStore transaction saveID opened filestore =
     (case opened of
        Inl err \<Rightarrow> Inl err
      | Inr db \<Rightarrow>
          (case saveID (InstallationID filestore) db of
             Inl err \<Rightarrow> Inl (DBError err)
           | Inr db' \<Rightarrow> saveAccounts transaction db' (GetAllAccounts filestore)))"

text \<open>
  \<open>NewFilestoreFromSqliteStore\<close>: \<open>installationID\<close> and \<open>accounts\<close> are what
  \<open>GetInstallationID\<close> and \<open>GetAllAccounts\<close> of the relational store return; \<open>ok1\<close>,
  \<open>ok2\<close> and \<open>ok3\<close> say whether the three writes of the file succeed.  The function
  returns the store together with the error of the last \<open>persist\<close>.
\<close>

definition NewFilestoreFromSqliteStore :: "MigrationEnv \<Rightarrow> bool \<Rightarrow> bool \<Rightarrow> bool \<Rightarrow> FileState \<Rightarrow> string \<Rightarrow> Account list \<Rightarrow> FileState \<times> (error + FileStore \<times> error option)" where
  "NewFilestoreFromSqliteStore env ok1 ok2 ok3 file installationID accounts =
     (case restore env ok1 file of
        (file1, Inl err) \<Rightarrow> (file1, Inl err)
      | (file1, Inr store) \<Rightarrow>
          (case SaveInstallationID ok2 store file1 installationID of
             (store1, file2, Some err) \<Rightarrow> (file2, Inl err)
           | (store1, file2, None) \<Rightarrow>
               (let store2 = store1\<lparr>Accounts := fold (\<lambda>account m. AList.update (Account_Id account) account m)
                                                      accounts (Accounts store1)\<rparr>;
                    (file3, err) = persist ok3 store2 file2
                in (file3, Inr (store2, err)))))"

section \<open>Pointers: what a returned account shares with the store\<close>

text \<open>
  \<open>FileStore.Accounts\<close> is a map of pointers, and \<open>GetAccount\<close> and \<open>GetAllAccounts\<close>
  return pointers.  Here the accounts live in a heap of cells; \<open>fresh\<close> is the first
  address not yet in use.

  Modelled from the spec: \<open>Account.Copy\<close> is declared outside the sources at hand.  The
  spec calls it a deep copy that is independent of its original: it puts the value of
  the account into a new cell.
\<close>

record Heap =
  cells :: "nat \<rightharpoonup> Account"
  fresh :: nat

definition Copy_at :: "Heap \<Rightarrow> nat \<Rightarrow> Heap \<times> nat" where
  "Copy_at h p = (h\<lparr>cells := (cells h)(fresh h := cells h p), fresh := Suc (fresh h)\<rparr>, fresh h)"

definition ptr_getAccount :: "(string \<times> nat) list \<Rightarrow> string \<Rightarrow> error + nat" where
  "ptr_getAccount accounts accountID =
     (case map_of accounts accountID of None \<Rightarrow> Inl NotFound | Some p \<Rightarrow> Inr p)"

definition ptr_GetAccount :: "(string \<times> nat) list \<Rightarrow> Heap \<Rightarrow> string \<Rightarrow> Heap \<times> (error + nat)" where
  "ptr_GetAccount accounts h accountID =
     (case ptr_getAccount accounts accountID of
        Inl err \<Rightarrow> (h, Inl err)
      | Inr p \<Rightarrow> (fst (Copy_at h p), Inr (snd (Copy_at h p))))"

fun ptr_GetAllAccounts :: "(string \<times> nat) list \<Rightarrow> Heap \<Rightarrow> Heap \<times> nat list" where
  "ptr_GetAllAccounts [] h = (h, [])"
| "ptr_GetAllAccounts (kv # rest) h =
     (let c = Copy_at h (snd kv); r = ptr_GetAllAccounts rest (fst c) in (fst r, snd c # snd r))"

text \<open>
  \<open>SaveAccount\<close> on pointers: the store keeps a copy of the account it is given, not the
  caller's pointer.  (The index maps hold strings and the file holds values; neither
  has a part in what is shared.)
\<close>

definition ptr_SaveAccount :: "(string \<times> nat) list \<Rightarrow> Heap \<Rightarrow> nat \<Rightarrow> (string \<times> nat) list \<times> Heap \<times> error option" where
  "ptr_SaveAccount accounts h p =
     (case cells h p of
        None \<Rightarrow> (accounts, h, Some NilDereference)
      | Some account \<Rightarrow>
          (if Account_Id account = '''' then (accounts, h, Some InvalidArgument)
           else (AList.update (Account_Id account) (snd (Copy_at h p)) accounts, fst (Copy_at h p), None)))"

text \<open>Every pointer the store holds is a cell in use.\<close>

definition stored_in_use :: "(string \<times> nat) list \<Rightarrow> Heap \<Rightarrow> bool" where
  "stored_in_use accounts h = list_all (\<lambda>kv. snd kv < fresh h \<and> cells h (snd kv) \<noteq> None) accounts"

text \<open>
  What a caller can do with the pointers \<open>qs\<close> it was given: write to their cells, and
  take new cells.
\<close>

definition caller_writes :: "nat list \<Rightarrow> Heap \<Rightarrow> Heap \<Rightarrow> bool" where
  "caller_writes qs h h' = (fresh h \<le> fresh h' \<and> list_all (\<lambda>p. p \<in> set qs \<or> cells h' p = cells h p) [0..<fresh h])"

section \<open>Accounts as the relational engine can hold them\<close>






section \<open>The migration pass: what it does to an account, and when it does nothing\<close>

text \<open>
  The user after the backfill of the issuer, and the group after the backfill of the issuer.
\<close>

definition issueUser :: "MigrationEnv \<Rightarrow> User \<Rightarrow> User" where
  "issueUser env user = (if User_Issued user = '''' then user\<lparr>User_Issued := UserIssuedAPI env\<rparr> else user)"

definition issueGroup :: "MigrationEnv \<Rightarrow> Group \<Rightarrow> Group" where
  "issueGroup env grp = (if Group_Issued grp = '''' then grp\<lparr>Group_Issued := GroupIssuedAPI env\<rparr> else grp)"


text \<open>
  The first three steps of the loop body: the index entries of the setup keys and of the peers; and the step of the private domain.
\<close>

definition indexKeysAndPeers :: "MigrationEnv \<Rightarrow> string \<Rightarrow> Account \<Rightarrow> FileStore \<Rightarrow> FileStore" where
  "indexKeysAndPeers env accountID account s =
     s\<lparr>SetupKeyID2AccountID := indexSetupKeys (strings_ToUpper env) accountID (SetupKeys account) (SetupKeyID2AccountID s),
       PeerKeyID2AccountID := indexPeerKeys accountID (Peers account) (PeerKeyID2AccountID s),
       PeerID2AccountID := indexPeerIDs accountID (Peers account) (PeerID2AccountID s)\<rparr>"

definition indexPrivateDomain :: "string \<Rightarrow> Account \<Rightarrow> FileStore \<Rightarrow> FileStore" where
  "indexPrivateDomain accountID account s =
     (if Account_Domain account \<noteq> '''' \<and> DomainCategory account = PrivateCategory \<and> IsDomainPrimaryAccount account
      then s\<lparr>PrivateDomain2AccountID := (PrivateDomain2AccountID s)(Account_Domain account \<mapsto> accountID)\<rparr>
      else s)"

text \<open>
  The account as it reaches \<open>GetGroupAll\<close>: default settings, the users given, policies, DNS labels, issuers of groups.
\<close>

definition preMigrate :: "MigrationEnv \<Rightarrow> Account \<Rightarrow> (string \<times> User) list \<Rightarrow> Account" where
  "preMigrate env account users =
     backfillGroupIssued env (backfillPeerLabels env (upgradePolicies env ((defaultSettings env account)\<lparr>Users := users\<rparr>)))"

text \<open>
  Two entries of a peers map with the same key, ID, public key and login time.
\<close>

definition samePeer :: "string \<times> Peer \<Rightarrow> string \<times> Peer \<Rightarrow> bool" where
  "samePeer kv kv' = (fst kv' = fst kv \<and> Peer_ID (snd kv') = Peer_ID (snd kv) \<and>
     Peer_Key (snd kv') = Peer_Key (snd kv) \<and> Peer_LastLogin (snd kv') = Peer_LastLogin (snd kv))"



text \<open>
  Two stores have the same index maps, the entry of the empty peer ID set aside.
\<close>

definition sameIndexes :: "FileStore \<Rightarrow> FileStore \<Rightarrow> bool" where
  "sameIndexes s s' =
     (SetupKeyID2AccountID s = SetupKeyID2AccountID s' \<and> PeerKeyID2AccountID s = PeerKeyID2AccountID s' \<and>
      UserID2AccountID s = UserID2AccountID s' \<and> PrivateDomain2AccountID s = PrivateDomain2AccountID s' \<and>
      HashedPAT2TokenID s = HashedPAT2TokenID s' \<and> TokenID2UserID s = TokenID2UserID s' \<and>
      (\<forall>k. k \<noteq> '''' \<longrightarrow> PeerID2AccountID s k = PeerID2AccountID s' k))"

section \<open>Example data\<close>

text \<open>An account with the given ID and nothing else, and an environment for the migration pass.\<close>

definition newAccount :: "string \<Rightarrow> Account" where
  "newAccount accountID =
     \<lparr>Account_Id = accountID, Account_Domain = '''', DomainCategory = '''', IsDomainPrimaryAccount = False,
      Settings = None, SetupKeys = [], Peers = [], Users = [], Groups = [], Routes = [],
      NameServerGroups = [], Policies = None, SetupKeysG = [], PeersG = [], UsersG = [], GroupsG = [],
      RoutesG = [], NameServerGroupsG = []\<rparr>"

definition exampleEnv :: MigrationEnv where
  "exampleEnv =
     \<lparr>strings_ToUpper = asciiToUpper, UserIssuedAPI = ''api'', GroupIssuedAPI = ''api'', DefaultPeerLoginExpiration = 86400,
      UpgradeAndFix = (\<lambda>p. p), getPeerHostLabel = (\<lambda>name labels. CHR ''h'' # name),
      xid_New = (\<lambda>n. replicate (Suc n) CHR ''x''), time_Now = (\<lambda>n. 1 + int n)\<rparr>"

definition domainAccount :: "string \<Rightarrow> string \<Rightarrow> Account" where
  "domainAccount accountID domain =
     (newAccount accountID)\<lparr>Account_Domain := domain, DomainCategory := PrivateCategory,
                             IsDomainPrimaryAccount := True\<rparr>"

text \<open>The store and the file after saving the accounts, one after the other, to a new store.\<close>

definition saveAll :: "Account list \<Rightarrow> FileStore \<times> FileState" where
  "saveAll accounts =
     fold (\<lambda>account sf. (fst (SaveAccount asciiToUpper True (fst sf) (snd sf) account),
                           fst (snd (SaveAccount asciiToUpper True (fst sf) (snd sf) account))))
          accounts (emptyStore, Missing)"

definition keyAccount :: Account where
  "keyAccount = (newAccount ''a1'')\<lparr>SetupKeys := [(''KEY1'', \<lparr>SetupKey_Id = ''1'', SetupKey_Key = ''KEY1''\<rparr>)]\<rparr>"

definition userAccount :: Account where
  "userAccount =
     (newAccount ''a1'')\<lparr>Users := [(''u1'', \<lparr>User_Id = ''u1'', User_Issued = ''api'',
        User_PATs = [(''t1'', \<lparr>PAT_ID = ''t1'', PAT_HashedToken = ''h1''\<rparr>)], User_PATsG = []\<rparr>)]\<rparr>"

definition peerAccount :: Account where
  "peerAccount =
     (newAccount ''a1'')\<lparr>Peers := [(''p1'', \<lparr>Peer_ID = ''p1'', Peer_Key = ''k1'', Peer_Name = ''host'',
        Peer_DNSLabel = ''host'', Peer_LastLogin = 5\<rparr>)]\<rparr>"

text \<open>
  A legacy account: one peer, stored under its public key, with no ID and no login time;
  a group and a route that refer to the peer by that key.
\<close>

definition legacyPeer :: Peer where
  "legacyPeer =
     \<lparr>Peer_ID = '''', Peer_Key = ''pk1'', Peer_Name = ''host'', Peer_DNSLabel = ''host'', Peer_LastLogin = 0\<rparr>"

definition legacyAccount :: "string \<Rightarrow> string \<Rightarrow> Account" where
  "legacyAccount accountID groupName =
     (newAccount accountID)\<lparr>Peers := [(''pk1'', legacyPeer)],
        Groups := [(''g1'', \<lparr>Group_ID = ''g1'', Group_Name = groupName, Group_Issued = ''api'',
                             Group_Peers = [''pk1'']\<rparr>)],
        Routes := [(''r1'', \<lparr>Route_ID = ''r1'', Route_Peer = ''pk1'', Route_Groups = [''g1'']\<rparr>)]\<rparr>"


definition storeFile :: "(string \<times> Account) list \<Rightarrow> FileState" where
  "storeFile accounts = Content \<lparr>File_Accounts = accounts, File_InstallationID = ''inst''\<rparr>"







text \<open>A heap with one account, which belongs to the caller.\<close>

definition callerHeap :: Heap where
  "callerHeap = \<lparr>cells = [0 \<mapsto> peerAccount], fresh = 1\<rparr>"

text \<open>
  The store saves the caller's account; the caller gets the account back from
  \<open>GetAccount\<close> (in cell 2) and overwrites it.
\<close>

definition savedAccounts :: "(string \<times> nat) list" where
  "savedAccounts = fst (ptr_SaveAccount [] callerHeap 0)"

definition savedHeap :: Heap where
  "savedHeap = fst (snd (ptr_SaveAccount [] callerHeap 0))"

definition changedHeap :: Heap where
  "changedHeap =
     (fst (ptr_GetAccount savedAccounts savedHeap ''a1''))
       \<lparr>cells := (cells (fst (ptr_GetAccount savedAccounts savedHeap ''a1'')))(2 \<mapsto> newAccount ''changed'')\<rparr>"

section \<open>Evaluating the model\<close>

lemmas save_eval = saveAll_def SaveAccount_def Account_Copy_def Let_def persist_def emptyStore_def
  newAccount_def indexSetupKeys_def indexPeerKeys_def indexPeerIDs_def indexUser_def indexTokenIDs_def
  indexHashedPATs_def getAccount_def PrivateCategory_def asciiToUpper_def toUpperChar_def upper_letters_def
  lower_letters_def

lemmas restore_eval = restore_def restoreAccount_def migratePeerIDs_def defaultSettings_def restoreUsers_def restoreUser_def
  upgradePolicies_def backfillPeerLabels_def getPeerDNSLabels_def addPeerLabelsToAccount_def
  backfillGroupIssued_def GetGroupAll_def backfillRouteGroups_def swapPeerKeys_def replaceGroupPeers_def
  replaceRoutePeer_def exampleEnv_def storeFile_def

section \<open>What SaveAccount writes\<close>

lemma accounts_indexUser [simp]: "Accounts (indexUser accountID user s) = Accounts s"
  by (simp add: indexUser_def)

lemma accounts_fold_indexUser [simp]:
  "Accounts (fold (\<lambda>kv. indexUser accountID (snd kv)) users s) = Accounts s"
  by (induction users arbitrary: s) simp_all

lemma domains_indexUser [simp]:
  "PrivateDomain2AccountID (indexUser accountID user s) = PrivateDomain2AccountID s"
  by (simp add: indexUser_def)

lemma domains_fold_indexUser [simp]:
  "PrivateDomain2AccountID (fold (\<lambda>kv. indexUser accountID (snd kv)) users s) = PrivateDomain2AccountID s"
  by (induction users arbitrary: s) simp_all

lemma accounts_SaveAccount:
  "Account_Id account \<noteq> '''' \<Longrightarrow>
   Accounts (fst (SaveAccount toUpper ok s file account)) = AList.update (Account_Id account) account (Accounts s)"
  by (simp add: SaveAccount_def Account_Copy_def Let_def split: prod.splits)

lemma domains_SaveAccount:
  "Account_Id account \<noteq> '''' \<Longrightarrow>
   PrivateDomain2AccountID (fst (SaveAccount toUpper ok s file account)) =
     (if DomainCategory account = PrivateCategory \<and> IsDomainPrimaryAccount account
      then (PrivateDomain2AccountID s)(Account_Domain account \<mapsto> Account_Id account)
      else PrivateDomain2AccountID s)"
  by (simp add: SaveAccount_def Account_Copy_def Let_def split: prod.splits)

lemma error_SaveAccount:
  "Account_Id account \<noteq> '''' \<Longrightarrow>
   snd (snd (SaveAccount toUpper ok s file account)) = (if ok then None else Some IOError)"
  by (simp add: SaveAccount_def Account_Copy_def Let_def persist_def split: prod.splits)

section \<open>Validation on save\<close>

text \<open>
  C2, file engine: \<open>SaveAccount\<close> with an empty account ID returns \<open>InvalidArgument\<close>,
  and the store in memory, the file and the list that \<open>GetAllAccounts\<close> returns are what
  they were.  The relational engine's \<open>SaveAccount\<close> has no such check: its error, if
  any, is the one of its database transaction.
\<close>

theorem SaveAccount_empty_id_changes_nothing:
  "Account_Id account = '''' \<Longrightarrow>
   SaveAccount toUpper ok s file account = (s, file, Some InvalidArgument) \<and>
   GetAllAccounts (fst (SaveAccount toUpper ok s file account)) = GetAllAccounts s \<and>
   snd (snd (SqliteStore_SaveAccount transaction db account)) =
     (case transaction (prepareAccount account) db of Inl err \<Rightarrow> Some (DBError err) | Inr db' \<Rightarrow> None)"
  by (simp add: SaveAccount_def SqliteStore_SaveAccount_def Let_def split: sum.splits)

theorem SaveAccount_empty_id_changes_nothing_witness:
  "Account_Id (newAccount '''') = '''' \<and>
   SaveAccount asciiToUpper True emptyStore Missing (newAccount '''') = (emptyStore, Missing, Some InvalidArgument) \<and>
   GetAllAccounts (fst (SaveAccount asciiToUpper True emptyStore Missing (newAccount ''''))) = []"
  using SaveAccount_empty_id_changes_nothing [of "newAccount ''''" asciiToUpper True emptyStore Missing "\<lambda>a d. Inr d" "0::nat"]
  by (simp add: newAccount_def GetAllAccounts_def emptyStore_def)

text \<open>
  C2 as stated fails on the relational engine: whatever the database does with the
  transaction, \<open>SaveAccount\<close> of an account with an empty ID does not return
  \<open>InvalidArgument\<close>.
\<close>

theorem SqliteStore_SaveAccount_empty_id_not_InvalidArgument:
  "\<forall>transaction (db :: nat).
     snd (snd (SqliteStore_SaveAccount transaction db (newAccount ''''))) \<noteq> Some InvalidArgument"
  by (simp add: SqliteStore_SaveAccount_def Let_def split: sum.splits)

section \<open>Private domains and letter case\<close>

text \<open>
  C10, amended: \<open>SaveAccount\<close> files a primary private-domain account under its \<open>Domain\<close>
  as written, and \<open>GetAccountByPrivateDomain\<close> looks under the lower-case form of its
  argument: it returns \<open>NotFound\<close> when there is no entry under that form, and the
  account of the entry when there is one.  When the
  \<open>Domain\<close> has an upper-case letter, that is, when \<open>strings.ToLower\<close> changes it, the
  save leaves the entry under the lower-case form as it was; so when the index had no
  such entry before the save, the lookup with the \<open>Domain\<close> as written returns
  \<open>NotFound\<close>.
\<close>

theorem mixed_case_domain_not_found:
  assumes "Account_Id account \<noteq> ''''"
    and "DomainCategory account = PrivateCategory"
    and "IsDomainPrimaryAccount account"
    and "toLower (Account_Domain account) \<noteq> Account_Domain account"
  shows "PrivateDomain2AccountID (fst (SaveAccount toUpper ok s file account)) (Account_Domain account) =
           Some (Account_Id account) \<and>
         (\<forall>s' domain. PrivateDomain2AccountID s' (toLower domain) = None \<longrightarrow>
            GetAccountByPrivateDomain toLower s' domain = Inl NotFound) \<and>
         (\<forall>s' domain accountID a.
            PrivateDomain2AccountID s' (toLower domain) = Some accountID \<and> map_of (Accounts s') accountID = Some a \<longrightarrow>
            GetAccountByPrivateDomain toLower s' domain = Inr a) \<and>
         PrivateDomain2AccountID (fst (SaveAccount toUpper ok s file account)) (toLower (Account_Domain account)) =
           PrivateDomain2AccountID s (toLower (Account_Domain account)) \<and>
         (PrivateDomain2AccountID s (toLower (Account_Domain account)) = None \<longrightarrow>
            GetAccountByPrivateDomain toLower (fst (SaveAccount toUpper ok s file account)) (Account_Domain account) =
              Inl NotFound)"
proof -
  have verbatim: "PrivateDomain2AccountID (fst (SaveAccount toUpper ok s file account)) (Account_Domain account) =
      Some (Account_Id account)"
    using assms(1,2,3) by (simp add: domains_SaveAccount)
  have same: "PrivateDomain2AccountID (fst (SaveAccount toUpper ok s file account)) (toLower (Account_Domain account)) =
      PrivateDomain2AccountID s (toLower (Account_Domain account))"
    using assms by (simp add: domains_SaveAccount)
  have lookup: "\<forall>s' domain. PrivateDomain2AccountID s' (toLower domain) = None \<longrightarrow>
      GetAccountByPrivateDomain toLower s' domain = Inl NotFound"
    by (simp add: GetAccountByPrivateDomain_def)
  have found: "\<forall>s' domain accountID a.
      PrivateDomain2AccountID s' (toLower domain) = Some accountID \<and> map_of (Accounts s') accountID = Some a \<longrightarrow>
      GetAccountByPrivateDomain toLower s' domain = Inr a"
    by (simp add: GetAccountByPrivateDomain_def getAccount_def Account_Copy_def)
  show ?thesis
    using verbatim same lookup found by simp
qed

text \<open>
  The witness: the domain \<open>Example.com\<close>, saved to an empty store.  The save succeeds, the
  entry is under \<open>Example.com\<close>, and the lookup with \<open>Example.com\<close> returns \<open>NotFound\<close>.
\<close>

theorem mixed_case_domain_not_found_witness:
  "Account_Id (domainAccount ''a1'' ''Example.com'') \<noteq> '''' \<and>
   DomainCategory (domainAccount ''a1'' ''Example.com'') = PrivateCategory \<and>
   IsDomainPrimaryAccount (domainAccount ''a1'' ''Example.com'') \<and>
   asciiToLower ''Example.com'' = ''example.com'' \<and>
   PrivateDomain2AccountID emptyStore ''example.com'' = None \<and>
   snd (snd (SaveAccount asciiToUpper True emptyStore Missing (domainAccount ''a1'' ''Example.com''))) = None \<and>
   PrivateDomain2AccountID (fst (SaveAccount asciiToUpper True emptyStore Missing (domainAccount ''a1'' ''Example.com'')))
     ''Example.com'' = Some ''a1'' \<and>
   GetAccountByPrivateDomain asciiToLower
     (fst (SaveAccount asciiToUpper True emptyStore Missing (domainAccount ''a1'' ''Example.com'')))
     ''Example.com'' = Inl NotFound"
proof -
  have a: "Account_Id (domainAccount ''a1'' ''Example.com'') \<noteq> ''''"
    and b: "DomainCategory (domainAccount ''a1'' ''Example.com'') = PrivateCategory"
    and c: "IsDomainPrimaryAccount (domainAccount ''a1'' ''Example.com'')"
    and d: "Account_Domain (domainAccount ''a1'' ''Example.com'') = ''Example.com''"
    and i: "Account_Id (domainAccount ''a1'' ''Example.com'') = ''a1''"
    by (simp_all add: domainAccount_def newAccount_def)
  have e: "asciiToLower ''Example.com'' = ''example.com''"
    by (simp add: asciiToLower_def toLowerChar_def upper_letters_def lower_letters_def)
  have f: "asciiToLower (Account_Domain (domainAccount ''a1'' ''Example.com'')) \<noteq>
      Account_Domain (domainAccount ''a1'' ''Example.com'')"
    by (simp add: d e)
  have g: "PrivateDomain2AccountID emptyStore ''example.com'' = None"
    by (simp add: emptyStore_def)
  show ?thesis
    using mixed_case_domain_not_found [of "domainAccount ''a1'' ''Example.com''" asciiToLower asciiToUpper True
        emptyStore Missing, OF a b c f] a b c e g
    by (simp add: d i error_SaveAccount)
qed

text \<open>
  C10 as stated fails when the index already has an entry under the lower-case form: the
  save of the account with the domain \<open>Example.com\<close> succeeds, and the lookup with
  \<open>Example.com\<close> returns the account that was saved before with the domain
  \<open>example.com\<close>.
\<close>

theorem mixed_case_domain_finds_other_account:
  "snd (snd (SaveAccount asciiToUpper True
            (fst (SaveAccount asciiToUpper True emptyStore Missing (domainAccount ''b1'' ''example.com'')))
            (fst (snd (SaveAccount asciiToUpper True emptyStore Missing (domainAccount ''b1'' ''example.com''))))
            (domainAccount ''a1'' ''Example.com''))) = None \<and>
   GetAccountByPrivateDomain asciiToLower
     (fst (SaveAccount asciiToUpper True
            (fst (SaveAccount asciiToUpper True emptyStore Missing (domainAccount ''b1'' ''example.com'')))
            (fst (snd (SaveAccount asciiToUpper True emptyStore Missing (domainAccount ''b1'' ''example.com''))))
            (domainAccount ''a1'' ''Example.com'')))
     ''Example.com'' = Inr (domainAccount ''b1'' ''example.com'')"
  by (simp add: GetAccountByPrivateDomain_def getAccount_def accounts_SaveAccount domains_SaveAccount
      error_SaveAccount domainAccount_def newAccount_def emptyStore_def Account_Copy_def PrivateCategory_def
      asciiToLower_def toLowerChar_def upper_letters_def lower_letters_def)
section \<open>Stale index entries\<close>

text \<open>
  C1, amended: the two peer lookups heal a stale entry.  When the index entry exists and
  its account exists but has no peer with that ID (or key), the lookup returns \<open>NotFound\<close>
  and deletes the entry, so that the same lookup once more finds no entry and returns
  \<open>NotFound\<close> with the store as it is; and these two lookups never return an account
  that lacks the peer.  \<open>GetAccountBySetupKey\<close>, \<open>GetAccountByUser\<close> and
  \<open>GetAccountByPrivateDomain\<close> make no such check: they return the account of the
  entry whenever that account exists.
\<close>

theorem peer_lookups_heal_stale_entries:
  assumes "map_of (Accounts s) accountID = Some account"
  shows "(PeerID2AccountID s peerID = Some accountID \<and> map_of (Peers account) peerID = None \<longrightarrow>
            snd (GetAccountByPeerID s peerID) = Inl NotFound \<and>
            PeerID2AccountID (fst (GetAccountByPeerID s peerID)) peerID = None \<and>
            GetAccountByPeerID (fst (GetAccountByPeerID s peerID)) peerID =
              (fst (GetAccountByPeerID s peerID), Inl NotFound)) \<and>
         (PeerKeyID2AccountID s peerKey = Some accountID \<and>
            \<not> list_ex (\<lambda>kv. Peer_Key (snd kv) = peerKey) (Peers account) \<longrightarrow>
            snd (GetAccountByPeerPubKey s peerKey) = Inl NotFound \<and>
            PeerKeyID2AccountID (fst (GetAccountByPeerPubKey s peerKey)) peerKey = None \<and>
            GetAccountByPeerPubKey (fst (GetAccountByPeerPubKey s peerKey)) peerKey =
              (fst (GetAccountByPeerPubKey s peerKey), Inl NotFound)) \<and>
         (\<forall>a. snd (GetAccountByPeerID s peerID) = Inr a \<longrightarrow> map_of (Peers a) peerID \<noteq> None) \<and>
         (\<forall>a. snd (GetAccountByPeerPubKey s peerKey) = Inr a \<longrightarrow>
                list_ex (\<lambda>kv. Peer_Key (snd kv) = peerKey) (Peers a)) \<and>
         (SetupKeyID2AccountID s (toUpper setupKey) = Some accountID \<longrightarrow>
            GetAccountBySetupKey toUpper s setupKey = Inr account) \<and>
         (UserID2AccountID s userID = Some accountID \<longrightarrow> GetAccountByUser s userID = Inr account) \<and>
         (PrivateDomain2AccountID s (toLower domain) = Some accountID \<longrightarrow>
            GetAccountByPrivateDomain toLower s domain = Inr account)"
  using assms
  by (auto simp: GetAccountByPeerID_def GetAccountByPeerPubKey_def GetAccountBySetupKey_def
      GetAccountByUser_def GetAccountByPrivateDomain_def getAccount_def Account_Copy_def Let_def
      split: option.splits sum.splits)

text \<open>
  The witness: a peer is saved with its account, then the account is saved without the
  peer; both index entries of the peer are stale, and each lookup heals its own.
\<close>

theorem peer_lookups_heal_stale_entries_witness:
  "map_of (Accounts (fst (saveAll [peerAccount, newAccount ''a1'']))) ''a1'' = Some (newAccount ''a1'') \<and>
   PeerID2AccountID (fst (saveAll [peerAccount, newAccount ''a1''])) ''p1'' = Some ''a1'' \<and>
   PeerKeyID2AccountID (fst (saveAll [peerAccount, newAccount ''a1''])) ''k1'' = Some ''a1'' \<and>
   map_of (Peers (newAccount ''a1'')) ''p1'' = None \<and>
   \<not> list_ex (\<lambda>kv. Peer_Key (snd kv) = ''k1'') (Peers (newAccount ''a1'')) \<and>
   snd (GetAccountByPeerID (fst (saveAll [peerAccount, newAccount ''a1''])) ''p1'') = Inl NotFound \<and>
   PeerID2AccountID (fst (GetAccountByPeerID (fst (saveAll [peerAccount, newAccount ''a1''])) ''p1'')) ''p1'' = None \<and>
   snd (GetAccountByPeerPubKey (fst (saveAll [peerAccount, newAccount ''a1''])) ''k1'') = Inl NotFound \<and>
   PeerKeyID2AccountID (fst (GetAccountByPeerPubKey (fst (saveAll [peerAccount, newAccount ''a1''])) ''k1'')) ''k1'' = None"
proof -
  have a: "map_of (Accounts (fst (saveAll [peerAccount, newAccount ''a1'']))) ''a1'' = Some (newAccount ''a1'')"
    by (simp add: save_eval peerAccount_def)
  have b: "PeerID2AccountID (fst (saveAll [peerAccount, newAccount ''a1''])) ''p1'' = Some ''a1''"
    by (simp add: save_eval peerAccount_def)
  have c: "PeerKeyID2AccountID (fst (saveAll [peerAccount, newAccount ''a1''])) ''k1'' = Some ''a1''"
    by (simp add: save_eval peerAccount_def)
  have d: "map_of (Peers (newAccount ''a1'')) ''p1'' = None"
    and e: "\<not> list_ex (\<lambda>kv. Peer_Key (snd kv) = ''k1'') (Peers (newAccount ''a1''))"
    by (simp_all add: newAccount_def)
  show ?thesis
    using peer_lookups_heal_stale_entries [OF a, of "''p1''" "''k1''"] a b c d e
    by simp
qed

text \<open>
  C1 as stated fails for \<open>GetAccountBySetupKey\<close>: a setup key is saved with its account,
  then the account is saved without the key; the lookup by the key returns the account,
  which no longer has the key.
\<close>

theorem stale_setup_key_returns_account:
  "GetAccountBySetupKey asciiToUpper (fst (saveAll [keyAccount, newAccount ''a1''])) ''KEY1'' = Inr (newAccount ''a1'') \<and>
   SetupKeys (newAccount ''a1'') = []"
  by (simp add: save_eval keyAccount_def GetAccountBySetupKey_def)

section \<open>Absent data\<close>

text \<open>
  C6 fails in the file engine's \<open>GetUserByTokenID\<close>: a user with a token is saved with
  its account, then the account is saved without the user.  The token still resolves to
  the user ID and the user ID to the account, the account has no such user, and the
  method calls \<open>Copy\<close> through the nil pointer instead of returning \<open>NotFound\<close>.
\<close>

theorem GetUserByTokenID_missing_user:
  "TokenID2UserID (fst (saveAll [userAccount, newAccount ''a1''])) ''t1'' = Some ''u1'' \<and>
   UserID2AccountID (fst (saveAll [userAccount, newAccount ''a1''])) ''u1'' = Some ''a1'' \<and>
   map_option Users (map_of (Accounts (fst (saveAll [userAccount, newAccount ''a1'']))) ''a1'') = Some [] \<and>
   GetUserByTokenID (fst (saveAll [userAccount, newAccount ''a1''])) ''t1'' = Inl NilDereference"
  by (simp add: save_eval userAccount_def GetUserByTokenID_def User_Copy_def)

section \<open>Switching engines: from the relational engine to the file\<close>

text \<open>
  C7 fails for \<open>NewFilestoreFromSqliteStore\<close>: the accounts read from the relational
  store are put into the \<open>Accounts\<close> map, not through \<open>SaveAccount\<close>.  The store it
  returns holds the account and the installation ID, but no index entry of the account:
  the peer lookups return \<open>NotFound\<close>, where after \<open>SaveAccount\<close> they return the account.
\<close>

theorem NewFilestoreFromSqliteStore_builds_no_index:
  "(case NewFilestoreFromSqliteStore exampleEnv True True True Missing ''inst'' [peerAccount] of
      (file, Inr (store, err)) \<Rightarrow>
         err = None \<and> InstallationID store = ''inst'' \<and> GetAccount store ''a1'' = Inr peerAccount \<and>
         PeerID2AccountID store ''p1'' = None \<and> snd (GetAccountByPeerID store ''p1'') = Inl NotFound \<and>
         snd (GetAccountByPeerPubKey store ''k1'') = Inl NotFound
    | (file, Inl err) \<Rightarrow> False) \<and>
   snd (GetAccountByPeerID (fst (saveAll [peerAccount])) ''p1'') = Inr peerAccount"
  by (simp add: NewFilestoreFromSqliteStore_def restore_def SaveInstallationID_def save_eval peerAccount_def
      GetAccount_def GetAccountByPeerID_def GetAccountByPeerPubKey_def)

section \<open>The migration pass on an account without the All group\<close>

text \<open>
  C3 fails: in a file with two legacy accounts, the first without any group, the pass
  leaves the peer of the first account as it was (under its public key, without an ID,
  with a zero login time), and migrates the peer of the second.
\<close>

theorem restore_without_All_group_skips_peer_migration:
  "(case restore exampleEnv True
           (storeFile [(''a1'', (legacyAccount ''a1'' ''All'')\<lparr>Groups := []\<rparr>), (''a2'', legacyAccount ''a2'' ''All'')]) of
      (file, Inr store) \<Rightarrow>
         map_option Peers (map_of (Accounts store) ''a1'') = Some [(''pk1'', legacyPeer)] \<and>
         map_option Peers (map_of (Accounts store) ''a2'') =
            Some [(''x'', legacyPeer\<lparr>Peer_ID := ''x'', Peer_LastLogin := 1\<rparr>)]
    | (file, Inl err) \<Rightarrow> False)"
  by (simp add: restore_eval save_eval legacyAccount_def legacyPeer_def)

section \<open>Save, then get\<close>

lemma set_update_subset: "set (AList.update k v al) \<subseteq> insert (k, v) (set al)"
  by (induction al) auto






text \<open>A map that is made anew from the values of a map with distinct keys, each value under its own key, is that map.\<close>

lemma update_absent: "k \<notin> fst ` set al \<Longrightarrow> AList.update k v al = al @ [(k, v)]"
  by (induction al) auto




lemma map_keyed: "list_all (\<lambda>kv. f (snd kv) = snd kv) xs \<Longrightarrow> map (\<lambda>kv. (fst kv, f (snd kv))) xs = xs"
  by (induction xs) simp_all
















section \<open>Returned accounts are copies\<close>

lemma stored_pointer_in_use:
  "stored_in_use accounts h \<Longrightarrow> map_of accounts accountID = Some p \<Longrightarrow> p < fresh h \<and> cells h p \<noteq> None"
proof -
  assume "stored_in_use accounts h" and "map_of accounts accountID = Some p"
  then have "\<forall>kv \<in> set accounts. snd kv < fresh h \<and> cells h (snd kv) \<noteq> None"
    and "(accountID, p) \<in> set accounts"
    by (simp_all add: stored_in_use_def list_all_iff map_of_SomeD)
  then show ?thesis
    by fastforce
qed

lemma caller_writes_keeps:
  "caller_writes qs h1 h2 \<Longrightarrow> p < fresh h1 \<Longrightarrow> p \<notin> set qs \<Longrightarrow> cells h2 p = cells h1 p"
  by (auto simp: caller_writes_def list_all_iff)

lemma GetAllAccounts_fresh: "fresh h \<le> fresh (fst (ptr_GetAllAccounts accounts h))"
proof (induction accounts arbitrary: h)
  case Nil
  then show ?case by simp
next
  case (Cons kv rest)
  have "Suc (fresh h) \<le> fresh (fst (ptr_GetAllAccounts rest (fst (Copy_at h (snd kv)))))"
    using Cons.IH [of "fst (Copy_at h (snd kv))"] by (simp add: Copy_at_def)
  then show ?case
    by (simp add: Let_def)
qed

lemma GetAllAccounts_cells:
  "p < fresh h \<Longrightarrow> cells (fst (ptr_GetAllAccounts accounts h)) p = cells h p"
proof (induction accounts arbitrary: h)
  case Nil
  then show ?case by simp
next
  case (Cons kv rest)
  have "cells (fst (ptr_GetAllAccounts rest (fst (Copy_at h (snd kv))))) p = cells (fst (Copy_at h (snd kv))) p"
    using Cons.prems by (intro Cons.IH) (simp add: Copy_at_def)
  then show ?case
    using Cons.prems by (simp add: Let_def Copy_at_def)
qed

lemma GetAllAccounts_new: "q \<in> set (snd (ptr_GetAllAccounts accounts h)) \<Longrightarrow> fresh h \<le> q"
proof (induction accounts arbitrary: h)
  case Nil
  then show ?case by simp
next
  case (Cons kv rest)
  from Cons.prems consider "q = fresh h"
    | "q \<in> set (snd (ptr_GetAllAccounts rest (fst (Copy_at h (snd kv)))))"
    by (auto simp: Let_def Copy_at_def)
  then show ?case
  proof cases
    case 1
    then show ?thesis by simp
  next
    case 2
    then have "fresh (fst (Copy_at h (snd kv))) \<le> q"
      by (rule Cons.IH)
    then show ?thesis
      by (simp add: Copy_at_def)
  qed
qed

text \<open>\<open>GetAllAccounts\<close> returns new cells that hold the values of the stored accounts.\<close>

lemma GetAllAccounts_values:
  "list_all (\<lambda>kv. snd kv < fresh h) accounts \<Longrightarrow>
   map (cells (fst (ptr_GetAllAccounts accounts h))) (snd (ptr_GetAllAccounts accounts h)) =
   map (\<lambda>kv. cells h (snd kv)) accounts"
proof (induction accounts arbitrary: h)
  case Nil
  then show ?case by simp
next
  case (Cons kv rest)
  let ?h1 = "fst (Copy_at h (snd kv))"
  have lt: "list_all (\<lambda>kv. snd kv < fresh ?h1) rest"
    using Cons.prems by (auto simp: Copy_at_def list_all_iff)
  have rest: "map (cells (fst (ptr_GetAllAccounts rest ?h1))) (snd (ptr_GetAllAccounts rest ?h1)) =
      map (\<lambda>kv. cells ?h1 (snd kv)) rest"
    using lt by (rule Cons.IH)
  have same: "map (\<lambda>kv. cells ?h1 (snd kv)) rest = map (\<lambda>kv. cells h (snd kv)) rest"
    using Cons.prems by (auto simp: Copy_at_def list_all_iff)
  have "fresh h < fresh ?h1"
    by (simp add: Copy_at_def)
  then have "cells (fst (ptr_GetAllAccounts rest ?h1)) (fresh h) = cells ?h1 (fresh h)"
    by (rule GetAllAccounts_cells)
  then have "cells (fst (ptr_GetAllAccounts rest ?h1)) (fresh h) = cells h (snd kv)"
    by (simp add: Copy_at_def)
  then show ?case
    using rest same by (simp add: Let_def Copy_at_def)
qed

text \<open>\<open>SaveAccount\<close> keeps the store's pointers in use, and stores a cell of its own.\<close>

lemma ptr_SaveAccount_in_use:
  assumes "stored_in_use accounts h"
  shows "stored_in_use (fst (ptr_SaveAccount accounts h p)) (fst (snd (ptr_SaveAccount accounts h p)))"
proof (cases "cells h p")
  case None
  then show ?thesis
    using assms by (simp add: ptr_SaveAccount_def)
next
  case (Some account)
  show ?thesis
  proof (cases "Account_Id account = ''''")
    case True
    then show ?thesis
      using assms Some by (simp add: ptr_SaveAccount_def)
  next
    case False
    have "\<And>kv. kv \<in> set (AList.update (Account_Id account) (fresh h) accounts) \<Longrightarrow>
        kv = (Account_Id account, fresh h) \<or> kv \<in> set accounts"
      using set_update_subset [of "Account_Id account" "fresh h" accounts] by auto
    then show ?thesis
      using assms Some False
      by (fastforce simp: ptr_SaveAccount_def stored_in_use_def list_all_iff Copy_at_def)
  qed
qed

text \<open>
  C9: for an account that the store holds, \<open>GetAccount\<close> returns a new cell with the value
  of the stored account, and leaves the stored cell as it is.  \<open>GetAllAccounts\<close> returns
  one cell for each stored account, in the order of the store; each of these cells is new
  (it is no cell that was in use, so no cell of the store) and holds the value of its
  stored account.  Whatever the caller then writes to the cell that \<open>GetAccount\<close>
  returned, or to the cells that \<open>GetAllAccounts\<close> returned, \<open>GetAccount\<close> returns once
  more a new cell with the value the stored account had.
\<close>

theorem returned_accounts_are_independent_copies:
  assumes "stored_in_use accounts h" and "map_of accounts accountID = Some p"
  shows "snd (ptr_GetAccount accounts h accountID) = Inr (fresh h) \<and>
         cells (fst (ptr_GetAccount accounts h accountID)) (fresh h) = cells h p \<and>
         cells (fst (ptr_GetAccount accounts h accountID)) p = cells h p \<and>
         map (cells (fst (ptr_GetAllAccounts accounts h))) (snd (ptr_GetAllAccounts accounts h)) =
           map (\<lambda>kv. cells h (snd kv)) accounts \<and>
         list_all (\<lambda>q. fresh h \<le> q \<and> q \<notin> snd ` set accounts) (snd (ptr_GetAllAccounts accounts h)) \<and>
         cells (fst (ptr_GetAllAccounts accounts h)) p = cells h p \<and>
         (caller_writes [fresh h] (fst (ptr_GetAccount accounts h accountID)) h2 \<longrightarrow>
            snd (ptr_GetAccount accounts h2 accountID) = Inr (fresh h2) \<and>
            cells (fst (ptr_GetAccount accounts h2 accountID)) (fresh h2) = cells h p) \<and>
         (caller_writes (snd (ptr_GetAllAccounts accounts h)) (fst (ptr_GetAllAccounts accounts h)) h3 \<longrightarrow>
            snd (ptr_GetAccount accounts h3 accountID) = Inr (fresh h3) \<and>
            cells (fst (ptr_GetAccount accounts h3 accountID)) (fresh h3) = cells h p)"
proof -
  have p: "p < fresh h"
    using stored_pointer_in_use [OF assms] by simp
  have stored: "\<forall>kv \<in> set accounts. snd kv < fresh h"
    using assms(1) by (simp add: stored_in_use_def list_all_iff)
  have get: "\<And>h'. ptr_GetAccount accounts h' accountID = (fst (Copy_at h' p), Inr (fresh h'))"
    using assms(2) by (simp add: ptr_GetAccount_def ptr_getAccount_def Copy_at_def)
  have copies: "map (cells (fst (ptr_GetAllAccounts accounts h))) (snd (ptr_GetAllAccounts accounts h)) =
      map (\<lambda>kv. cells h (snd kv)) accounts"
    using stored by (intro GetAllAccounts_values) (simp add: list_all_iff)
  have new: "list_all (\<lambda>q. fresh h \<le> q \<and> q \<notin> snd ` set accounts) (snd (ptr_GetAllAccounts accounts h))"
  proof -
    have "fresh h \<le> q \<and> q \<notin> snd ` set accounts" if "q \<in> set (snd (ptr_GetAllAccounts accounts h))" for q
    proof -
      have "fresh h \<le> q"
        using that by (rule GetAllAccounts_new)
      moreover from this have "q \<notin> snd ` set accounts"
        using stored by force
      ultimately show ?thesis by simp
    qed
    then show ?thesis
      by (simp add: list_all_iff)
  qed
  have kept: "cells (fst (ptr_GetAllAccounts accounts h)) p = cells h p"
    using p by (rule GetAllAccounts_cells)
  have one: "cells h2 p = cells h p"
    if w: "caller_writes [fresh h] (fst (ptr_GetAccount accounts h accountID)) h2"
  proof -
    have "cells h2 p = cells (fst (Copy_at h p)) p"
      using w p by (intro caller_writes_keeps [where qs = "[fresh h]"]) (simp_all add: get Copy_at_def)
    then show ?thesis
      using p by (simp add: Copy_at_def)
  qed
  have all: "cells h3 p = cells h p"
    if w: "caller_writes (snd (ptr_GetAllAccounts accounts h)) (fst (ptr_GetAllAccounts accounts h)) h3"
  proof -
    have "p \<notin> set (snd (ptr_GetAllAccounts accounts h))"
      using GetAllAccounts_new [of p accounts h] p by auto
    moreover have "p < fresh (fst (ptr_GetAllAccounts accounts h))"
      using GetAllAccounts_fresh [of h accounts] p by simp
    ultimately have "cells h3 p = cells (fst (ptr_GetAllAccounts accounts h)) p"
      using w by (intro caller_writes_keeps)
    then show ?thesis
      using kept by simp
  qed
  have first: "snd (ptr_GetAccount accounts h accountID) = Inr (fresh h) \<and>
         cells (fst (ptr_GetAccount accounts h accountID)) (fresh h) = cells h p \<and>
         cells (fst (ptr_GetAccount accounts h accountID)) p = cells h p"
    using p by (simp add: get Copy_at_def)
  have after1: "caller_writes [fresh h] (fst (ptr_GetAccount accounts h accountID)) h2 \<longrightarrow>
            snd (ptr_GetAccount accounts h2 accountID) = Inr (fresh h2) \<and>
            cells (fst (ptr_GetAccount accounts h2 accountID)) (fresh h2) = cells h p"
    using one by (simp add: get Copy_at_def)
  have after2: "caller_writes (snd (ptr_GetAllAccounts accounts h)) (fst (ptr_GetAllAccounts accounts h)) h3 \<longrightarrow>
            snd (ptr_GetAccount accounts h3 accountID) = Inr (fresh h3) \<and>
            cells (fst (ptr_GetAccount accounts h3 accountID)) (fresh h3) = cells h p"
    using all by (simp add: get Copy_at_def)
  show ?thesis
    using first copies new kept after1 after2 by blast
qed

lemmas pointer_eval = savedAccounts_def savedHeap_def changedHeap_def callerHeap_def ptr_SaveAccount_def
  ptr_GetAccount_def ptr_getAccount_def Copy_at_def stored_in_use_def caller_writes_def peerAccount_def
  newAccount_def Let_def

text \<open>
  The witness: the store has saved the caller's account (its copy is cell 1).
  \<open>GetAccount\<close> and \<open>GetAllAccounts\<close> each return cell 2 with the value of the account;
  the caller overwrites cell 2; \<open>GetAccount\<close> then returns cell 3 with the value of the
  account as it was saved.
\<close>

theorem returned_accounts_are_independent_copies_witness:
  "stored_in_use savedAccounts savedHeap \<and> map_of savedAccounts ''a1'' = Some 1 \<and>
   snd (ptr_GetAccount savedAccounts savedHeap ''a1'') = Inr 2 \<and>
   cells (fst (ptr_GetAccount savedAccounts savedHeap ''a1'')) 2 = Some peerAccount \<and>
   snd (ptr_GetAllAccounts savedAccounts savedHeap) = [2] \<and>
   map (cells (fst (ptr_GetAllAccounts savedAccounts savedHeap))) (snd (ptr_GetAllAccounts savedAccounts savedHeap)) =
     [Some peerAccount] \<and>
   caller_writes [2] (fst (ptr_GetAccount savedAccounts savedHeap ''a1'')) changedHeap \<and>
   caller_writes (snd (ptr_GetAllAccounts savedAccounts savedHeap))
     (fst (ptr_GetAllAccounts savedAccounts savedHeap)) changedHeap \<and>
   cells changedHeap 2 = Some (newAccount ''changed'') \<and>
   snd (ptr_GetAccount savedAccounts changedHeap ''a1'') = Inr 3 \<and>
   cells (fst (ptr_GetAccount savedAccounts changedHeap ''a1'')) 3 = Some peerAccount"
proof -
  have a: "stored_in_use savedAccounts savedHeap"
    by (simp add: pointer_eval)
  have b: "map_of savedAccounts ''a1'' = Some 1"
    by (simp add: pointer_eval)
  have f: "fresh savedHeap = 2" and g: "fresh changedHeap = 3" and v: "cells savedHeap (Suc 0) = Some peerAccount"
    by (simp_all add: pointer_eval)
  have l: "savedAccounts = [(''a1'', 1)]"
    by (simp add: pointer_eval)
  have ptrs: "snd (ptr_GetAllAccounts savedAccounts savedHeap) = [2]"
    by (simp add: l Copy_at_def f)
  have up: "[0..<3] = [0, 1, 2]"
    by (simp add: upt_rec)
  have c: "caller_writes [2] (fst (ptr_GetAccount savedAccounts savedHeap ''a1'')) changedHeap"
    by (simp add: pointer_eval up)
  have d: "caller_writes (snd (ptr_GetAllAccounts savedAccounts savedHeap))
      (fst (ptr_GetAllAccounts savedAccounts savedHeap)) changedHeap"
    by (simp add: pointer_eval up)
  have e: "cells changedHeap 2 = Some (newAccount ''changed'')"
    by (simp add: pointer_eval)
  show ?thesis
    using returned_accounts_are_independent_copies [OF a b, of changedHeap changedHeap] a b c d e ptrs
    by (simp add: f g v l)
qed
section \<open>The migration pass: lemmas\<close>

text \<open>The index maps after a loop of writes, entry by entry.\<close>

lemma fold_upd_const:
  "fold (\<lambda>kv m. m(f kv \<mapsto> v)) xs idx = (\<lambda>k. if k \<in> f ` set xs then Some v else idx k)"
  by (induction xs arbitrary: idx) (auto simp: fun_eq_iff)

lemma indexSetupKeys_apply:
  "indexSetupKeys toUpper accountID keys idx k = (if k \<in> (\<lambda>kv. toUpper (fst kv)) ` set keys then Some accountID else idx k)"
  by (simp add: indexSetupKeys_def fold_upd_const)


lemma indexPeerIDs_apply:
  "indexPeerIDs accountID peers idx k = (if k \<in> (\<lambda>kv. Peer_ID (snd kv)) ` set peers then Some accountID else idx k)"
  by (simp add: indexPeerIDs_def fold_upd_const)


lemma set_delete: "set (AList.delete k al) = {kv \<in> set al. fst kv \<noteq> k}"
  by (induction al) auto

lemma map_of_distinct_mem: "distinct (map fst al) \<Longrightarrow> (k, v) \<in> set al \<Longrightarrow> map_of al k = Some v"
  by simp

text \<open>The loop that builds \<open>migrationPeers\<close>.\<close>

lemma migratePeers_keys: "map fst (fst (migratePeers env n ps)) = map fst ps"
  by (induction ps arbitrary: n) (simp_all add: Let_def)

lemma migratePeers_length: "length (fst (migratePeers env n ps)) = length ps"
  using migratePeers_keys [of env n ps] by (metis length_map)

lemma migratePeers_counter: "snd (snd (migratePeers env n ps)) = n + length ps"
  by (induction ps arbitrary: n) (simp_all add: Let_def)

lemma migratePeers_sub: "set (fst (snd (migratePeers env n ps))) \<subseteq> set (fst (migratePeers env n ps))"
  by (induction ps arbitrary: n) (auto simp: Let_def)

lemma migratePeers_mp_keys: "fst ` set (fst (snd (migratePeers env n ps))) \<subseteq> fst ` set ps"
  using migratePeers_sub [of env n ps] migratePeers_keys [of env n ps]
  by (metis image_mono set_map)

lemma migratePeers_mp_distinct:
  "distinct (map fst ps) \<Longrightarrow> distinct (map fst (fst (snd (migratePeers env n ps))))"
proof (induction ps arbitrary: n)
  case Nil
  then show ?case by simp
next
  case (Cons kv rest)
  have "fst kv \<notin> fst ` set (fst (snd (migratePeers env (Suc n) rest)))"
    using Cons.prems migratePeers_mp_keys [of env "Suc n" rest] by auto
  then show ?case using Cons by (simp add: Let_def)
qed




lemma migratePeers_new_ids:
  "\<exists>js. map (\<lambda>kv. Peer_ID (snd kv)) (fst (snd (migratePeers env n ps))) = map (xid_New env) js \<and>
        distinct js \<and> set js \<subseteq> {n..<n + length ps}"
proof (induction ps arbitrary: n)
  case Nil
  then show ?case by simp
next
  case (Cons kv rest)
  obtain js where js: "map (\<lambda>kv. Peer_ID (snd kv)) (fst (snd (migratePeers env (Suc n) rest))) = map (xid_New env) js"
      "distinct js" "set js \<subseteq> {Suc n..<Suc n + length rest}"
    using Cons.IH by blast
  show ?case
  proof (cases "Peer_ID (snd kv) = ''''")
    case True
    have "map (\<lambda>kv. Peer_ID (snd kv)) (fst (snd (migratePeers env n (kv # rest)))) = map (xid_New env) (n # js)"
      using True js(1) by (simp add: Let_def)
    moreover have "distinct (n # js)" using js(2,3) by auto
    moreover have "set (n # js) \<subseteq> {n..<n + length (kv # rest)}" using js(3) by auto
    ultimately show ?thesis by blast
  next
    case False
    have "map (\<lambda>kv. Peer_ID (snd kv)) (fst (snd (migratePeers env n (kv # rest)))) = map (xid_New env) js"
      using False js(1) by (simp add: Let_def)
    moreover have "set js \<subseteq> {n..<n + length (kv # rest)}" using js(3) by auto
    ultimately show ?thesis using js(2) by blast
  qed
qed


lemma swap_idx:
  "snd (swapPeerKeys accountID mp (cur, idx)) =
     (\<lambda>k. if k \<in> (\<lambda>kv. Peer_ID (snd kv)) ` set mp then Some accountID else idx k)"
  unfolding swapPeerKeys_def
  by (induction mp arbitrary: cur idx) (simp_all add: fun_eq_iff)

lemma swap_fst:
  "fst (swapPeerKeys accountID mp (cur, idx)) =
     fold (\<lambda>kv c. AList.update (Peer_ID (snd kv)) (snd kv) (AList.delete (fst kv) c)) mp cur"
  unfolding swapPeerKeys_def
  by (induction mp arbitrary: cur idx) simp_all

lemma rekey_step_set:
  fixes cur :: "('k \<times> 'v) list"
  assumes "distinct (map fst cur)" and "(key, p) \<in> set cur" and "newID \<notin> fst ` set cur"
  shows "set (AList.update newID p (AList.delete key cur)) = (set cur - {(key, p)}) \<union> {(newID, p)}"
proof -
  have "fst ` set (AList.delete key cur) \<subseteq> fst ` set cur"
    by (rule dom_delete_subset)
  then have "newID \<notin> fst ` set (AList.delete key cur)"
    using assms(3) by blast
  then have a: "set (AList.update newID p (AList.delete key cur)) = set (AList.delete key cur) \<union> {(newID, p)}"
    by (simp add: update_absent)
  have one: "v = p" if "(key, v) \<in> set cur" for v
    using assms(1) that assms(2) by (rule eq_key_imp_eq_value)
  have "set (AList.delete key cur) = set cur - {(key, p)}"
  proof (rule set_eqI)
    fix x :: "'k \<times> 'v"
    obtain k v where x: "x = (k, v)" by (cases x)
    show "x \<in> set (AList.delete key cur) \<longleftrightarrow> x \<in> set cur - {(key, p)}"
      unfolding set_delete x using one by auto
  qed
  then show ?thesis using a by simp
qed


lemma set_alg1: "R \<subseteq> A \<Longrightarrow> a \<notin> R \<Longrightarrow> R \<subseteq> (A - {a}) \<union> {b}"
  by blast

lemma set_alg2: "fst ` ((A - {a}) \<union> {(k, v)}) \<subseteq> insert k (fst ` A)"
  by force

lemma set_alg3:
  "f a \<notin> R \<Longrightarrow> (((A - {a}) \<union> {f a}) - R) \<union> f ` R = (A - insert a R) \<union> insert (f a) (f ` R)"
  by blast

lemma set_alg4: "A \<subseteq> insert a B \<Longrightarrow> F \<inter> B = {} \<Longrightarrow> a \<notin> F \<Longrightarrow> F \<inter> A = {}"
  by blast

lemma rekey_set:
  fixes cur :: "('k \<times> 'v) list" and g :: "'v \<Rightarrow> 'k"
  assumes "distinct (map fst cur)" and "distinct (map fst mp)" and "set mp \<subseteq> set cur"
    and "(\<lambda>kv. g (snd kv)) ` set mp \<inter> fst ` set cur = {}"
    and "distinct (map (\<lambda>kv. g (snd kv)) mp)"
  shows "set (fold (\<lambda>kv c. AList.update (g (snd kv)) (snd kv) (AList.delete (fst kv) c)) mp cur) =
           (set cur - set mp) \<union> (\<lambda>kv. (g (snd kv), snd kv)) ` set mp \<and>
         distinct (map fst (fold (\<lambda>kv c. AList.update (g (snd kv)) (snd kv) (AList.delete (fst kv) c)) mp cur))"
  using assms
proof (induction mp arbitrary: cur)
  case Nil
  then show ?case by simp
next
  case (Cons kv rest)
  let ?cur1 = "AList.update (g (snd kv)) (snd kv) (AList.delete (fst kv) cur)"
  have mem: "(fst kv, snd kv) \<in> set cur" using Cons.prems(3) by simp
  have new: "g (snd kv) \<notin> fst ` set cur" using Cons.prems(4) by simp
  have cur1: "set ?cur1 = (set cur - {kv}) \<union> {(g (snd kv), snd kv)}"
    using rekey_step_set [OF Cons.prems(1) mem new] by simp
  have d1: "distinct (map fst ?cur1)"
    using Cons.prems(1) by (simp add: distinct_update distinct_delete)
  have d2: "distinct (map fst rest)" and k2: "fst kv \<notin> fst ` set rest"
    using Cons.prems(2) by simp_all
  have kvrest: "kv \<notin> set rest"
    using k2 by (rule contrapos_nn) (rule imageI)
  have sub: "set rest \<subseteq> set ?cur1"
  proof -
    have "set rest \<subseteq> set cur" using Cons.prems(3) by simp
    then have "set rest \<subseteq> (set cur - {kv}) \<union> {(g (snd kv), snd kv)}"
      using kvrest by (rule set_alg1)
    then show ?thesis by (subst cur1)
  qed
  have d3: "distinct (map (\<lambda>kv. g (snd kv)) rest)" and newrest: "g (snd kv) \<notin> (\<lambda>kv. g (snd kv)) ` set rest"
    using Cons.prems(5) by simp_all
  have "fst ` set ?cur1 \<subseteq> insert (g (snd kv)) (fst ` set cur)"
    by (subst cur1) (rule set_alg2)
  moreover have "(\<lambda>kv. g (snd kv)) ` set rest \<inter> fst ` set cur = {}" using Cons.prems(4) by simp
  ultimately have disj: "(\<lambda>kv. g (snd kv)) ` set rest \<inter> fst ` set ?cur1 = {}"
    using newrest by (rule set_alg4)
  note IH = Cons.IH [OF d1 d2 sub disj d3]
  have notin: "(g (snd kv), snd kv) \<notin> set rest"
  proof
    assume "(g (snd kv), snd kv) \<in> set rest"
    then have "(g (snd kv), snd kv) \<in> set cur" using Cons.prems(3) by auto
    then have "fst (g (snd kv), snd kv) \<in> fst ` set cur" by (rule imageI)
    then show False using new by simp
  qed
  have "(((set cur - {kv}) \<union> {(g (snd kv), snd kv)}) - set rest) \<union> (\<lambda>kv. (g (snd kv), snd kv)) ` set rest =
        (set cur - insert kv (set rest)) \<union> insert (g (snd kv), snd kv) ((\<lambda>kv. (g (snd kv), snd kv)) ` set rest)"
    using notin by (rule set_alg3 [where f = "\<lambda>kv. (g (snd kv), snd kv)"])
  then have "(set ?cur1 - set rest) \<union> (\<lambda>kv. (g (snd kv), snd kv)) ` set rest =
        (set cur - set (kv # rest)) \<union> (\<lambda>kv. (g (snd kv), snd kv)) ` set (kv # rest)"
    by (subst cur1) simp
  then have "set (fold (\<lambda>kv c. AList.update (g (snd kv)) (snd kv) (AList.delete (fst kv) c)) rest ?cur1) =
        (set cur - set (kv # rest)) \<union> (\<lambda>kv. (g (snd kv), snd kv)) ` set (kv # rest)"
    using IH by (simp only:)
  then show ?case using IH by (simp only: fold_simps simp_thms)
qed

lemma indexUser_issue: "indexUser accountID (issueUser env user) s = indexUser accountID user s"
  by (simp add: indexUser_def issueUser_def)






lemma defaultSettings_fields:
  "SetupKeys (defaultSettings env account) = SetupKeys account"
  "Peers (defaultSettings env account) = Peers account"
  "Users (defaultSettings env account) = Users account"
  "Groups (defaultSettings env account) = Groups account"
  "Routes (defaultSettings env account) = Routes account"
  "Policies (defaultSettings env account) = Policies account"
  "Account_Id (defaultSettings env account) = Account_Id account"
  "Account_Domain (defaultSettings env account) = Account_Domain account"
  "DomainCategory (defaultSettings env account) = DomainCategory account"
  "IsDomainPrimaryAccount (defaultSettings env account) = IsDomainPrimaryAccount account"
  "Settings (defaultSettings env account) \<noteq> None"
  by (simp_all add: defaultSettings_def)

lemma restoreAccount_eq:
  "restoreAccount env accountID account s n =
     (case GetGroupAll (preMigrate env account (fst (restoreUsers env accountID (Users account) (indexKeysAndPeers env accountID account s)))) of
        None \<Rightarrow> (preMigrate env account (fst (restoreUsers env accountID (Users account) (indexKeysAndPeers env accountID account s))),
                 indexPrivateDomain accountID account (snd (restoreUsers env accountID (Users account) (indexKeysAndPeers env accountID account s))),
                 n)
      | Some allGroup \<Rightarrow>
          migratePeerIDs env accountID
            (backfillRouteGroups allGroup
               (preMigrate env account (fst (restoreUsers env accountID (Users account) (indexKeysAndPeers env accountID account s)))))
            (indexPrivateDomain accountID account (snd (restoreUsers env accountID (Users account) (indexKeysAndPeers env accountID account s))))
            n)"
  by (simp add: restoreAccount_def Let_def preMigrate_def indexKeysAndPeers_def indexPrivateDomain_def defaultSettings_fields
      cong: option.case_cong)

text \<open>The fields of the account as it reaches \<open>GetGroupAll\<close>.\<close>

lemma preMigrate_Groups:
  "Groups (preMigrate env account users) =
     map (\<lambda>kv. (fst kv, if Group_Issued (snd kv) = '''' then (snd kv)\<lparr>Group_Issued := GroupIssuedAPI env\<rparr> else snd kv)) (Groups account)"
  by (simp add: preMigrate_def backfillGroupIssued_def backfillPeerLabels_def addPeerLabelsToAccount_def
      upgradePolicies_def defaultSettings_fields Let_def)

lemma preMigrate_Routes: "Routes (preMigrate env account users) = Routes account"
  by (simp add: preMigrate_def backfillGroupIssued_def backfillPeerLabels_def addPeerLabelsToAccount_def
      upgradePolicies_def defaultSettings_fields Let_def)


lemma preMigrate_Peers:
  "Peers (preMigrate env account users) =
     (if length (getPeerDNSLabels account) \<noteq> length (Peers account)
      then addPeerLabels env (Peers account) (getPeerDNSLabels account) else Peers account)"
  by (simp add: preMigrate_def backfillGroupIssued_def backfillPeerLabels_def addPeerLabelsToAccount_def
      upgradePolicies_def defaultSettings_fields Let_def getPeerDNSLabels_def)




text \<open>\<open>GetGroupAll\<close> reads the names of the groups only.\<close>

lemma find_map_name:
  "(\<And>x. P (f x) = P x) \<Longrightarrow> find P (map f xs) = map_option f (find P xs)"
  by (induction xs) simp_all

lemma GetGroupAll_preMigrate:
  "GetGroupAll (preMigrate env account users) =
     map_option (\<lambda>g. if Group_Issued g = '''' then g\<lparr>Group_Issued := GroupIssuedAPI env\<rparr> else g) (GetGroupAll account)"
proof -
  have "find (\<lambda>kv. Group_Name (snd kv) = ''All'')
          (map (\<lambda>kv. (fst kv, if Group_Issued (snd kv) = '''' then (snd kv)\<lparr>Group_Issued := GroupIssuedAPI env\<rparr> else snd kv)) (Groups account)) =
        map_option (\<lambda>kv. (fst kv, if Group_Issued (snd kv) = '''' then (snd kv)\<lparr>Group_Issued := GroupIssuedAPI env\<rparr> else snd kv))
          (find (\<lambda>kv. Group_Name (snd kv) = ''All'') (Groups account))"
    by (rule find_map_name) simp
  then show ?thesis
    by (simp add: GetGroupAll_def preMigrate_Groups option.map_comp comp_def)
qed

lemma list_all2_map_eq:
  "list_all2 R xs ys \<Longrightarrow> (\<And>x y. R x y \<Longrightarrow> f y = f x) \<Longrightarrow> map f ys = map f xs"
  by (induction rule: list_all2_induct) simp_all

lemma addPeerLabels_same: "list_all2 samePeer ps (addPeerLabels env ps labels)"
  by (induction ps arbitrary: labels) (simp_all add: samePeer_def Let_def)

lemma list_all2_refl_samePeer: "list_all2 samePeer ps ps"
  by (simp add: list_all2_refl samePeer_def)

lemma preMigrate_Peers_same: "list_all2 samePeer (Peers account) (Peers (preMigrate env account users))"
  by (simp add: preMigrate_Peers addPeerLabels_same list_all2_refl_samePeer)

lemma preMigrate_Peers_keys: "map fst (Peers (preMigrate env account users)) = map fst (Peers account)"
  using preMigrate_Peers_same by (rule list_all2_map_eq) (simp add: samePeer_def)









lemma migratePeerIDs_counter: "snd (snd (migratePeerIDs env accountID account s n)) = n + length (Peers account)"
  by (simp add: migratePeerIDs_def Let_def migratePeers_counter)

lemma migratePeerIDs_store:
  "fst (snd (migratePeerIDs env accountID account s n)) =
     s\<lparr>PeerID2AccountID := (\<lambda>k. if k \<in> (\<lambda>kv. Peer_ID (snd kv)) ` set (fst (snd (migratePeers env n (Peers account))))
                                   then Some accountID else PeerID2AccountID s k)\<rparr>"
  by (simp add: migratePeerIDs_def Let_def swap_idx)

lemma migratePeerIDs_account:
  "fst (migratePeerIDs env accountID account s n) =
     (if fst (snd (migratePeers env n (Peers account))) = [] then account\<lparr>Peers := fst (migratePeers env n (Peers account))\<rparr>
      else account\<lparr>Peers := fold (\<lambda>kv c. AList.update (Peer_ID (snd kv)) (snd kv) (AList.delete (fst kv) c))
                                   (fst (snd (migratePeers env n (Peers account)))) (fst (migratePeers env n (Peers account))),
                    Groups := map (\<lambda>kv. (fst kv, replaceGroupPeers (fst (snd (migratePeers env n (Peers account)))) (snd kv))) (Groups account),
                    Routes := map (\<lambda>kv. (fst kv, replaceRoutePeer (fst (snd (migratePeers env n (Peers account)))) (snd kv))) (Routes account)\<rparr>)"
  by (simp add: migratePeerIDs_def Let_def swap_fst)

text \<open>The loop over the users leaves the other index maps as they are.\<close>

lemma restoreUser_other:
  "SetupKeyID2AccountID (snd (restoreUser env accountID k st)) = SetupKeyID2AccountID (snd st)"
  "PeerKeyID2AccountID (snd (restoreUser env accountID k st)) = PeerKeyID2AccountID (snd st)"
  "PeerID2AccountID (snd (restoreUser env accountID k st)) = PeerID2AccountID (snd st)"
  "PrivateDomain2AccountID (snd (restoreUser env accountID k st)) = PrivateDomain2AccountID (snd st)"
  "Accounts (snd (restoreUser env accountID k st)) = Accounts (snd st)"
  "InstallationID (snd (restoreUser env accountID k st)) = InstallationID (snd st)"
  by (simp_all add: restoreUser_def indexUser_def Let_def split: option.splits)

lemma fold_restoreUser_other:
  "SetupKeyID2AccountID (snd (fold (restoreUser env accountID) ks st)) = SetupKeyID2AccountID (snd st) \<and>
   PeerKeyID2AccountID (snd (fold (restoreUser env accountID) ks st)) = PeerKeyID2AccountID (snd st) \<and>
   PeerID2AccountID (snd (fold (restoreUser env accountID) ks st)) = PeerID2AccountID (snd st) \<and>
   PrivateDomain2AccountID (snd (fold (restoreUser env accountID) ks st)) = PrivateDomain2AccountID (snd st) \<and>
   Accounts (snd (fold (restoreUser env accountID) ks st)) = Accounts (snd st) \<and>
   InstallationID (snd (fold (restoreUser env accountID) ks st)) = InstallationID (snd st)"
  by (induction ks arbitrary: st) (simp_all add: restoreUser_other)

lemma restoreUsers_other:
  "SetupKeyID2AccountID (snd (restoreUsers env accountID users s)) = SetupKeyID2AccountID s"
  "PeerKeyID2AccountID (snd (restoreUsers env accountID users s)) = PeerKeyID2AccountID s"
  "PeerID2AccountID (snd (restoreUsers env accountID users s)) = PeerID2AccountID s"
  "PrivateDomain2AccountID (snd (restoreUsers env accountID users s)) = PrivateDomain2AccountID s"
  "Accounts (snd (restoreUsers env accountID users s)) = Accounts s"
  "InstallationID (snd (restoreUsers env accountID users s)) = InstallationID s"
  using fold_restoreUser_other [of env accountID "map fst users" "(users, s)"]
  by (simp_all add: restoreUsers_def)










lemma list_all_conj: "list_all P xs \<Longrightarrow> list_all Q xs \<Longrightarrow> list_all (\<lambda>x. P x \<and> Q x) xs"
  by (simp add: list_all_iff)






lemma backfillRouteGroups_fields:
  "Settings (backfillRouteGroups g a) = Settings a"
  "Users (backfillRouteGroups g a) = Users a"
  "Policies (backfillRouteGroups g a) = Policies a"
  "Peers (backfillRouteGroups g a) = Peers a"
  "Groups (backfillRouteGroups g a) = Groups a"
  "SetupKeys (backfillRouteGroups g a) = SetupKeys a"
  "list_all (\<lambda>kv. Route_Groups (snd kv) \<noteq> []) (Routes (backfillRouteGroups g a))"
  by (simp_all add: backfillRouteGroups_def list_all_iff)





lemma indexPrivateDomain_fields:
  "SetupKeyID2AccountID (indexPrivateDomain accountID a s) = SetupKeyID2AccountID s"
  "PeerKeyID2AccountID (indexPrivateDomain accountID a s) = PeerKeyID2AccountID s"
  "PeerID2AccountID (indexPrivateDomain accountID a s) = PeerID2AccountID s"
  "UserID2AccountID (indexPrivateDomain accountID a s) = UserID2AccountID s"
  "TokenID2UserID (indexPrivateDomain accountID a s) = TokenID2UserID s"
  "HashedPAT2TokenID (indexPrivateDomain accountID a s) = HashedPAT2TokenID s"
  "Accounts (indexPrivateDomain accountID a s) = Accounts s"
  "InstallationID (indexPrivateDomain accountID a s) = InstallationID s"
  by (simp_all add: indexPrivateDomain_def)

lemma indexKeysAndPeers_fields:
  "UserID2AccountID (indexKeysAndPeers env accountID a s) = UserID2AccountID s"
  "TokenID2UserID (indexKeysAndPeers env accountID a s) = TokenID2UserID s"
  "HashedPAT2TokenID (indexKeysAndPeers env accountID a s) = HashedPAT2TokenID s"
  "PrivateDomain2AccountID (indexKeysAndPeers env accountID a s) = PrivateDomain2AccountID s"
  "Accounts (indexKeysAndPeers env accountID a s) = Accounts s"
  "InstallationID (indexKeysAndPeers env accountID a s) = InstallationID s"
  "SetupKeyID2AccountID (indexKeysAndPeers env accountID a s) = indexSetupKeys (strings_ToUpper env) accountID (SetupKeys a) (SetupKeyID2AccountID s)"
  "PeerKeyID2AccountID (indexKeysAndPeers env accountID a s) = indexPeerKeys accountID (Peers a) (PeerKeyID2AccountID s)"
  "PeerID2AccountID (indexKeysAndPeers env accountID a s) = indexPeerIDs accountID (Peers a) (PeerID2AccountID s)"
  by (simp_all add: indexKeysAndPeers_def)


















lemma sameIndexes_refl: "sameIndexes s s"
  by (simp add: sameIndexes_def)


lemma restoreAccount_other:
  "Accounts (fst (snd (restoreAccount env accountID a s n))) = Accounts s"
  "InstallationID (fst (snd (restoreAccount env accountID a s n))) = InstallationID s"
  by (cases "GetGroupAll a";
      simp add: restoreAccount_eq GetGroupAll_preMigrate migratePeerIDs_store indexPrivateDomain_fields
        restoreUsers_other indexKeysAndPeers_fields)+


lemma restoreAccounts_other:
  "Accounts (fst (snd (restoreAccounts env accs s n))) = Accounts s \<and>
   InstallationID (fst (snd (restoreAccounts env accs s n))) = InstallationID s"
  by (induction accs arbitrary: s n) (simp_all add: Let_def restoreAccount_other)

lemma inj_xid_exampleEnv: "inj (xid_New exampleEnv)"
proof (rule injI)
  fix x y :: nat
  assume "xid_New exampleEnv x = xid_New exampleEnv y"
  then have "length (xid_New exampleEnv x) = length (xid_New exampleEnv y)"
    by simp
  then show "x = y" by (simp add: exampleEnv_def)
qed

lemma restore_Content:
  "restore env True (Content f) =
     (Content \<lparr>File_Accounts = fst (restoreAccounts env (File_Accounts f)
                  (emptyStore\<lparr>Accounts := File_Accounts f, InstallationID := File_InstallationID f\<rparr>) 0),
               File_InstallationID = File_InstallationID f\<rparr>,
      Inr ((fst (snd (restoreAccounts env (File_Accounts f)
                  (emptyStore\<lparr>Accounts := File_Accounts f, InstallationID := File_InstallationID f\<rparr>) 0)))
             \<lparr>Accounts := fst (restoreAccounts env (File_Accounts f)
                  (emptyStore\<lparr>Accounts := File_Accounts f, InstallationID := File_InstallationID f\<rparr>) 0)\<rparr>))"
  by (simp add: restore_def persist_def Let_def restoreAccounts_other)

section \<open>Running the migration pass twice\<close>




section \<open>The migration to peer IDs\<close>

lemma map_of_map_snd:
  "map_of (map (\<lambda>kv. (fst kv, f (snd kv))) xs) k = map_option f (map_of xs k)"
  by (induction xs) simp_all

lemma list_all2_mem:
  "list_all2 R xs ys \<Longrightarrow> x \<in> set xs \<Longrightarrow> \<exists>y\<in>set ys. R x y"
  by (induction rule: list_all2_induct) auto

lemma migratePeers_new_id_of:
  "(K, q) \<in> set ps \<Longrightarrow> Peer_ID q = '''' \<Longrightarrow>
   \<exists>p i. (K, p) \<in> set (fst (snd (migratePeers env n ps))) \<and> Peer_ID p = xid_New env i \<and>
         n \<le> i \<and> i < n + length ps \<and> Peer_Key p = Peer_Key q"
proof (induction ps arbitrary: n)
  case Nil
  then show ?case by simp
next
  case (Cons kv rest)
  show ?case
  proof (cases "kv = (K, q)")
    case True
    let ?p = "(if Peer_LastLogin q = 0 then q\<lparr>Peer_LastLogin := time_Now env n\<rparr> else q)\<lparr>Peer_ID := xid_New env n\<rparr>"
    have "(K, ?p) \<in> set (fst (snd (migratePeers env n (kv # rest))))"
      using True Cons.prems(2) by (simp add: Let_def)
    moreover have "Peer_ID ?p = xid_New env n" "Peer_Key ?p = Peer_Key q"
      by simp_all
    ultimately show ?thesis
      by (intro exI [of _ ?p] exI [of _ n]) simp
  next
    case False
    then have "(K, q) \<in> set rest"
      using Cons.prems(1) by simp
    then obtain p i where p: "(K, p) \<in> set (fst (snd (migratePeers env (Suc n) rest)))" "Peer_ID p = xid_New env i"
        "Suc n \<le> i" "i < Suc n + length rest" "Peer_Key p = Peer_Key q"
      using Cons.IH [of "Suc n"] Cons.prems(2) by blast
    have "(K, p) \<in> set (fst (snd (migratePeers env n (kv # rest))))"
      using p(1) by (simp add: Let_def)
    then show ?thesis
      using p(2-5) by (intro exI [of _ p] exI [of _ i]) simp
  qed
qed

text \<open>The peers map after the swap of keys.\<close>

lemma rekey_lookup:
  fixes cur :: "('k \<times> 'v) list" and g :: "'v \<Rightarrow> 'k"
  assumes d1: "distinct (map fst cur)" and d2: "distinct (map fst mp)" and sub: "set mp \<subseteq> set cur"
    and d4: "(\<lambda>kv. g (snd kv)) ` set mp \<inter> fst ` set cur = {}"
    and d3: "distinct (map (\<lambda>kv. g (snd kv)) mp)"
    and mem: "(K, p) \<in> set mp"
  shows "map_of (fold (\<lambda>kv c. AList.update (g (snd kv)) (snd kv) (AList.delete (fst kv) c)) mp cur) (g p) = Some p"
    and "map_of (fold (\<lambda>kv c. AList.update (g (snd kv)) (snd kv) (AList.delete (fst kv) c)) mp cur) K = None"
proof -
  let ?fin = "fold (\<lambda>kv c. AList.update (g (snd kv)) (snd kv) (AList.delete (fst kv) c)) mp cur"
  have set: "set ?fin = (set cur - set mp) \<union> (\<lambda>kv. (g (snd kv), snd kv)) ` set mp"
    and dist: "distinct (map fst ?fin)"
    using rekey_set [OF d1 d2 sub d4 d3] by simp_all
  have "(g p, p) \<in> (\<lambda>kv. (g (snd kv), snd kv)) ` set mp"
    using mem by force
  then have "(g p, p) \<in> set ?fin"
    unfolding set by (rule UnI2)
  then show "map_of ?fin (g p) = Some p"
    using dist by simp
  have "K \<notin> fst ` set ?fin"
  proof
    assume "K \<in> fst ` set ?fin"
    then obtain v where v: "(K, v) \<in> set ?fin" by force
    then consider "(K, v) \<in> set cur" "(K, v) \<notin> set mp" | "(K, v) \<in> (\<lambda>kv. (g (snd kv), snd kv)) ` set mp"
      unfolding set by blast
    then show False
    proof cases
      case 1
      have "(K, p) \<in> set cur" using mem sub by blast
      then have "v = p"
        using 1(1) d1 by (meson eq_key_imp_eq_value)
      then show False using 1(2) mem by simp
    next
      case 2
      then obtain kv where kv: "kv \<in> set mp" "K = g (snd kv)" by force
      have "K \<in> fst ` set cur" using mem sub by force
      moreover have "K \<in> (\<lambda>kv. g (snd kv)) ` set mp" using kv by force
      ultimately show False using d4 by blast
    qed
  qed
  then show "map_of ?fin K = None"
    by (simp add: map_of_eq_None_iff)
qed

lemma migratePeers_rekey:
  assumes dist: "distinct (map fst ps)"
    and fresh: "\<And>i. xid_New env i \<notin> fst ` set ps"
    and inj: "inj (xid_New env)"
  shows "distinct (map fst (fst (migratePeers env n ps)))"
    and "distinct (map fst (fst (snd (migratePeers env n ps))))"
    and "(\<lambda>kv. Peer_ID (snd kv)) ` set (fst (snd (migratePeers env n ps))) \<inter> fst ` set (fst (migratePeers env n ps)) = {}"
    and "distinct (map (\<lambda>kv. Peer_ID (snd kv)) (fst (snd (migratePeers env n ps))))"
proof -
  let ?m = "migratePeers env n ps"
  show "distinct (map fst (fst ?m))"
    using dist by (simp add: migratePeers_keys)
  show "distinct (map fst (fst (snd ?m)))"
    using dist by (rule migratePeers_mp_distinct)
  obtain js where js: "map (\<lambda>kv. Peer_ID (snd kv)) (fst (snd ?m)) = map (xid_New env) js" "distinct js"
    using migratePeers_new_ids [of env n ps] by blast
  show "distinct (map (\<lambda>kv. Peer_ID (snd kv)) (fst (snd ?m)))"
    unfolding js(1) using js(2) inj by (simp add: distinct_map inj_on_def inj_def)
  have keys: "fst ` set (fst ?m) = fst ` set ps"
    using migratePeers_keys [of env n ps] by (metis set_map)
  have ids: "(\<lambda>kv. Peer_ID (snd kv)) ` set (fst (snd ?m)) = xid_New env ` set js"
    using js(1) by (metis set_map)
  have "xid_New env ` set js \<inter> fst ` set ps = {}"
    using fresh by blast
  then show "(\<lambda>kv. Peer_ID (snd kv)) ` set (fst (snd ?m)) \<inter> fst ` set (fst ?m) = {}"
    by (simp only: ids keys)
qed

lemma replaceGroupPeers_nth:
  assumes "map_of mp K = Some p" and "j < length (Group_Peers grp)" and "Group_Peers grp ! j = K"
  shows "Group_Peers (replaceGroupPeers mp grp) ! j = Peer_ID p"
  using assms by (simp add: replaceGroupPeers_def)

lemma replaceGroupPeers_length:
  "length (Group_Peers (replaceGroupPeers mp grp)) = length (Group_Peers grp)"
  by (simp add: replaceGroupPeers_def)

lemma replaceRoutePeer_hit:
  "map_of mp (Route_Peer rt) = Some p \<Longrightarrow> Route_Peer (replaceRoutePeer mp rt) = Peer_ID p"
  by (simp add: replaceRoutePeer_def)

text \<open>The loop body on an account with the All group and a peer without an ID.\<close>

lemma restoreAccount_rekeys:
  assumes xid: "\<And>i. xid_New env i \<noteq> ''''"
    and inj: "inj (xid_New env)"
    and dist: "distinct (map fst (Peers a))"
    and fresh: "\<And>i. xid_New env i \<notin> fst ` set (Peers a)"
    and grp: "GetGroupAll a \<noteq> None"
    and peer: "map_of (Peers a) K = Some q" and noid: "Peer_ID q = ''''"
  shows "\<exists>i p1. n \<le> i \<and> i < n + length (Peers a) \<and>
           map_of (Peers (fst (restoreAccount env accountID a s n))) K = None \<and>
           map_of (Peers (fst (restoreAccount env accountID a s n))) (xid_New env i) = Some p1 \<and>
           Peer_ID p1 = xid_New env i \<and> Peer_Key p1 = Peer_Key q \<and>
           PeerID2AccountID (fst (snd (restoreAccount env accountID a s n))) (xid_New env i) = Some accountID \<and>
           (\<forall>gid grp. map_of (Groups a) gid = Some grp \<longrightarrow>
              (\<exists>grp1. map_of (Groups (fst (restoreAccount env accountID a s n))) gid = Some grp1 \<and>
                 length (Group_Peers grp1) = length (Group_Peers grp) \<and>
                 (\<forall>j<length (Group_Peers grp). Group_Peers grp ! j = K \<longrightarrow> Group_Peers grp1 ! j = xid_New env i))) \<and>
           (\<forall>rid rt. map_of (Routes a) rid = Some rt \<and> Route_Peer rt = K \<longrightarrow>
              (\<exists>rt1. map_of (Routes (fst (restoreAccount env accountID a s n))) rid = Some rt1 \<and>
                 Route_Peer rt1 = xid_New env i))"
proof -
  obtain g where g: "GetGroupAll a = Some g"
    using grp by blast
  let ?us = "fst (restoreUsers env accountID (Users a) (indexKeysAndPeers env accountID a s))"
  let ?s4 = "indexPrivateDomain accountID a (snd (restoreUsers env accountID (Users a) (indexKeysAndPeers env accountID a s)))"
  let ?g = "if Group_Issued g = '''' then g\<lparr>Group_Issued := GroupIssuedAPI env\<rparr> else g"
  let ?acc = "backfillRouteGroups ?g (preMigrate env a ?us)"
  let ?P = "Peers (preMigrate env a ?us)"
  let ?m = "migratePeers env n ?P"
  let ?mp = "fst (snd ?m)"
  let ?a1 = "fst (restoreAccount env accountID a s n)"
  have r: "restoreAccount env accountID a s n = migratePeerIDs env accountID ?acc ?s4 n"
    using g by (simp add: restoreAccount_eq GetGroupAll_preMigrate)
  have P: "Peers ?acc = ?P"
    by (simp add: backfillRouteGroups_fields)
  have keys: "map fst ?P = map fst (Peers a)"
    by (rule preMigrate_Peers_keys)
  have len: "length ?P = length (Peers a)"
    using keys by (metis length_map)
  have d: "distinct (map fst ?P)"
    using dist by (simp only: keys)
  have f: "\<And>i. xid_New env i \<notin> fst ` set ?P"
    using fresh keys by (metis set_map)
  note c = migratePeers_rekey [OF d f inj, of n]
  have "(K, q) \<in> set (Peers a)"
    using peer by (rule map_of_SomeD)
  then obtain kv5 where kv5: "kv5 \<in> set ?P" "samePeer (K, q) kv5"
    using list_all2_mem [OF preMigrate_Peers_same] by blast
  then have q5: "(K, snd kv5) \<in> set ?P" "Peer_ID (snd kv5) = ''''" "Peer_Key (snd kv5) = Peer_Key q"
    using noid by (simp_all add: samePeer_def) (metis prod.collapse)
  obtain p i where p: "(K, p) \<in> set ?mp" "Peer_ID p = xid_New env i" "n \<le> i" "i < n + length ?P"
      "Peer_Key p = Peer_Key (snd kv5)"
    using migratePeers_new_id_of [OF q5(1,2)] by blast
  have ne: "?mp \<noteq> []"
    using p(1) by auto
  have mpK: "map_of ?mp K = Some p"
    using c(2) p(1) by simp
  have Peers1: "Peers ?a1 = fold (\<lambda>kv c. AList.update (Peer_ID (snd kv)) (snd kv) (AList.delete (fst kv) c)) ?mp (fst ?m)"
    using ne by (simp add: r migratePeerIDs_account P)
  have Groups1: "Groups ?a1 = map (\<lambda>kv. (fst kv, replaceGroupPeers ?mp (snd kv))) (Groups ?acc)"
    using ne by (simp add: r migratePeerIDs_account P)
  have Routes1: "Routes ?a1 = map (\<lambda>kv. (fst kv, replaceRoutePeer ?mp (snd kv))) (Routes ?acc)"
    using ne by (simp add: r migratePeerIDs_account P)
  have c1: "map_of (Peers ?a1) K = None"
    unfolding Peers1 using c(1,2) migratePeers_sub c(3,4) p(1) by (rule rekey_lookup(2))
  have "map_of (Peers ?a1) (Peer_ID p) = Some p"
    unfolding Peers1 using c(1,2) migratePeers_sub c(3,4) p(1) by (rule rekey_lookup(1))
  then have c2: "map_of (Peers ?a1) (xid_New env i) = Some p"
    by (simp only: p(2))
  have "xid_New env i \<in> (\<lambda>kv. Peer_ID (snd kv)) ` set ?mp"
    using p(1,2) by force
  then have c3: "PeerID2AccountID (fst (snd (restoreAccount env accountID a s n))) (xid_New env i) = Some accountID"
    by (simp add: r migratePeerIDs_store P)
  have Gacc: "Groups ?acc = map (\<lambda>kv. (fst kv, issueGroup env (snd kv))) (Groups a)"
    by (simp add: backfillRouteGroups_fields preMigrate_Groups issueGroup_def)
  have c4: "\<exists>grp1. map_of (Groups ?a1) gid = Some grp1 \<and> length (Group_Peers grp1) = length (Group_Peers grp) \<and>
                 (\<forall>j<length (Group_Peers grp). Group_Peers grp ! j = K \<longrightarrow> Group_Peers grp1 ! j = xid_New env i)"
    if "map_of (Groups a) gid = Some grp" for gid grp
  proof -
    have gp: "Group_Peers (issueGroup env grp) = Group_Peers grp"
      by (simp add: issueGroup_def)
    have "map_of (Groups ?acc) gid = Some (issueGroup env grp)"
      using that by (simp add: Gacc map_of_map_snd)
    then have "map_of (Groups ?a1) gid = Some (replaceGroupPeers ?mp (issueGroup env grp))"
      by (simp add: Groups1 map_of_map_snd)
    moreover have "length (Group_Peers (replaceGroupPeers ?mp (issueGroup env grp))) = length (Group_Peers grp)"
      by (simp add: replaceGroupPeers_length gp)
    moreover have "Group_Peers (replaceGroupPeers ?mp (issueGroup env grp)) ! j = xid_New env i"
      if "j < length (Group_Peers grp)" "Group_Peers grp ! j = K" for j
      using replaceGroupPeers_nth [OF mpK, of j "issueGroup env grp"] that by (simp add: gp p(2))
    ultimately show ?thesis by blast
  qed
  have c5: "\<exists>rt1. map_of (Routes ?a1) rid = Some rt1 \<and> Route_Peer rt1 = xid_New env i"
    if "map_of (Routes a) rid = Some rt" "Route_Peer rt = K" for rid rt
  proof -
    let ?rt = "if length (Route_Groups rt) = 0 then rt\<lparr>Route_Groups := [Group_ID ?g]\<rparr> else rt"
    have "map_of (Routes ?acc) rid = Some ?rt"
      using that(1)
        map_of_map_snd [of "\<lambda>r. if length (Route_Groups r) = 0 then r\<lparr>Route_Groups := [Group_ID ?g]\<rparr> else r" "Routes a" rid]
      by (simp add: backfillRouteGroups_def preMigrate_Routes)
    then have "map_of (Routes ?a1) rid = Some (replaceRoutePeer ?mp ?rt)"
      by (simp add: Routes1 map_of_map_snd)
    moreover have "Route_Peer ?rt = K"
      using that(2) by simp
    then have "Route_Peer (replaceRoutePeer ?mp ?rt) = xid_New env i"
      using replaceRoutePeer_hit [of ?mp ?rt p] mpK by (simp add: p(2))
    ultimately show ?thesis by blast
  qed
  have c0: "i < n + length (Peers a)"
    using p(4) len by simp
  have c6: "Peer_Key p = Peer_Key q"
    using p(5) q5(3) by simp
  show ?thesis
    using p(3) c0 c1 c2 p(2) c6 c3 c4 c5 by blast
qed

lemma restoreAccount_counter:
  "snd (snd (restoreAccount env accountID a s n)) = (if GetGroupAll a = None then n else n + length (Peers a))"
proof -
  have "length (Peers (preMigrate env a us)) = length (Peers a)" for us
    using preMigrate_Peers_keys [of env a us] by (metis length_map)
  then show ?thesis
    by (cases "GetGroupAll a")
       (simp_all add: restoreAccount_eq GetGroupAll_preMigrate migratePeerIDs_counter backfillRouteGroups_fields)
qed

lemma restoreAccount_PeerID_keep:
  assumes "k \<notin> (\<lambda>kv. Peer_ID (snd kv)) ` set (Peers a)" and "\<And>j. n \<le> j \<Longrightarrow> k \<noteq> xid_New env j"
  shows "PeerID2AccountID (fst (snd (restoreAccount env accountID a s n))) k = PeerID2AccountID s k"
proof (cases "GetGroupAll a")
  case None
  then show ?thesis
    using assms(1)
    by (simp add: restoreAccount_eq GetGroupAll_preMigrate indexPrivateDomain_fields restoreUsers_other
        indexKeysAndPeers_fields indexPeerIDs_apply)
next
  case (Some g)
  let ?P = "Peers (preMigrate env a (fst (restoreUsers env accountID (Users a) (indexKeysAndPeers env accountID a s))))"
  obtain js where js: "map (\<lambda>kv. Peer_ID (snd kv)) (fst (snd (migratePeers env n ?P))) = map (xid_New env) js"
      "set js \<subseteq> {n..<n + length ?P}"
    using migratePeers_new_ids [of env n ?P] by blast
  have "(\<lambda>kv. Peer_ID (snd kv)) ` set (fst (snd (migratePeers env n ?P))) = xid_New env ` set js"
    using js(1) by (metis set_map)
  moreover have "k \<notin> xid_New env ` set js"
  proof
    assume "k \<in> xid_New env ` set js"
    then obtain j where j: "j \<in> set js" "k = xid_New env j" by blast
    then have "n \<le> j" using js(2) by auto
    then show False using assms(2) j(2) by blast
  qed
  ultimately have "k \<notin> (\<lambda>kv. Peer_ID (snd kv)) ` set (fst (snd (migratePeers env n ?P)))"
    by simp
  then show ?thesis
    using Some assms(1)
    by (simp add: restoreAccount_eq GetGroupAll_preMigrate migratePeerIDs_store backfillRouteGroups_fields
        indexPrivateDomain_fields restoreUsers_other indexKeysAndPeers_fields indexPeerIDs_apply)
qed

lemma restoreAccounts_PeerID_keep:
  "(\<forall>kv\<in>set accs. k \<notin> (\<lambda>kv. Peer_ID (snd kv)) ` set (Peers (snd kv))) \<Longrightarrow>
   (\<And>j. n \<le> j \<Longrightarrow> k \<noteq> xid_New env j) \<Longrightarrow>
   PeerID2AccountID (fst (snd (restoreAccounts env accs s n))) k = PeerID2AccountID s k"
proof (induction accs arbitrary: s n)
  case Nil
  then show ?case by simp
next
  case (Cons kv accs)
  let ?r = "restoreAccount env (fst kv) (snd kv) s n"
  have 1: "PeerID2AccountID (fst (snd ?r)) k = PeerID2AccountID s k"
    using Cons.prems by (intro restoreAccount_PeerID_keep) simp_all
  have 2: "n \<le> snd (snd ?r)"
    by (simp add: restoreAccount_counter)
  have "PeerID2AccountID (fst (snd (restoreAccounts env accs (fst (snd ?r)) (snd (snd ?r))))) k = PeerID2AccountID (fst (snd ?r)) k"
    using Cons.prems 2 by (intro Cons.IH) simp_all
  then show ?case
    using 1 by (simp add: Let_def)
qed

text \<open>Where the account of an ID comes from, and what follows it.\<close>

lemma restoreAccounts_split:
  "distinct (map fst accs) \<Longrightarrow> (accountID, a) \<in> set accs \<Longrightarrow>
   \<exists>s' n' post. set post \<subseteq> set accs \<and>
      map_of (fst (restoreAccounts env accs s n)) accountID = Some (fst (restoreAccount env accountID a s' n')) \<and>
      fst (snd (restoreAccounts env accs s n)) =
        fst (snd (restoreAccounts env post (fst (snd (restoreAccount env accountID a s' n')))
                    (snd (snd (restoreAccount env accountID a s' n')))))"
proof (induction accs arbitrary: s n)
  case Nil
  then show ?case by simp
next
  case (Cons kv accs)
  show ?case
  proof (cases "kv = (accountID, a)")
    case True
    have "set accs \<subseteq> set (kv # accs)" by auto
    moreover have "map_of (fst (restoreAccounts env (kv # accs) s n)) accountID = Some (fst (restoreAccount env accountID a s n))"
      using True by (simp add: Let_def)
    moreover have "fst (snd (restoreAccounts env (kv # accs) s n)) =
        fst (snd (restoreAccounts env accs (fst (snd (restoreAccount env accountID a s n)))
                    (snd (snd (restoreAccount env accountID a s n)))))"
      using True by (simp add: Let_def)
    ultimately show ?thesis by blast
  next
    case False
    then have mem: "(accountID, a) \<in> set accs"
      using Cons.prems(2) by simp
    have d: "distinct (map fst accs)"
      using Cons.prems(1) by simp
    have "accountID \<in> fst ` set accs"
      using mem by force
    then have ne: "fst kv \<noteq> accountID"
      using Cons.prems(1) by auto
    let ?r = "restoreAccount env (fst kv) (snd kv) s n"
    obtain s' n' post where IH: "set post \<subseteq> set accs"
        "map_of (fst (restoreAccounts env accs (fst (snd ?r)) (snd (snd ?r)))) accountID = Some (fst (restoreAccount env accountID a s' n'))"
        "fst (snd (restoreAccounts env accs (fst (snd ?r)) (snd (snd ?r)))) =
           fst (snd (restoreAccounts env post (fst (snd (restoreAccount env accountID a s' n')))
                    (snd (snd (restoreAccount env accountID a s' n')))))"
      using Cons.IH [OF d mem, of "fst (snd ?r)" "snd (snd ?r)"] by blast
    have "set post \<subseteq> set (kv # accs)" using IH(1) by auto
    moreover have "map_of (fst (restoreAccounts env (kv # accs) s n)) accountID = Some (fst (restoreAccount env accountID a s' n'))"
      using IH(2) ne by (simp add: Let_def)
    moreover have "fst (snd (restoreAccounts env (kv # accs) s n)) =
        fst (snd (restoreAccounts env post (fst (snd (restoreAccount env accountID a s' n')))
                    (snd (snd (restoreAccount env accountID a s' n')))))"
      using IH(3) by (simp add: Let_def)
    ultimately show ?thesis by blast
  qed
qed

text \<open>
  With the All group, the pass gives a legacy peer its new ID.  The environment: \<open>xid.New\<close> returns
  IDs that are not empty, differ from each other and are neither key nor ID of a peer in
  the file.  For an account of the file that has the All group, and a peer of that account
  that is stored under \<open>K\<close> and has no ID: \<open>restore\<close> returns a store in which the account
  has no peer under \<open>K\<close> and has the peer, with its public key, under a new ID that is
  not empty; the peer-ID index maps the new ID to the account; in every group the
  entries that were \<open>K\<close> are the new ID; and a route whose peer was \<open>K\<close> has the new ID as
  its peer.
\<close>

lemma restore_rekeys_legacy_peer:
  assumes xid: "\<And>i. xid_New env i \<noteq> ''''"
    and inj: "inj (xid_New env)"
    and accs: "distinct (map fst (File_Accounts f))"
    and fresh: "\<forall>kv\<in>set (File_Accounts f). distinct (map fst (Peers (snd kv))) \<and>
        (\<forall>i. xid_New env i \<notin> fst ` set (Peers (snd kv)) \<and>
             xid_New env i \<notin> (\<lambda>kv. Peer_ID (snd kv)) ` set (Peers (snd kv)))"
    and acc: "map_of (File_Accounts f) accountID = Some a"
    and grp: "GetGroupAll a \<noteq> None"
    and peer: "map_of (Peers a) K = Some q" and noid: "Peer_ID q = ''''"
  shows "\<exists>file1 store1 a1 newID p1.
           restore env True (Content f) = (file1, Inr store1) \<and>
           map_of (Accounts store1) accountID = Some a1 \<and>
           newID \<noteq> '''' \<and>
           map_of (Peers a1) K = None \<and>
           map_of (Peers a1) newID = Some p1 \<and> Peer_ID p1 = newID \<and> Peer_Key p1 = Peer_Key q \<and>
           PeerID2AccountID store1 newID = Some accountID \<and>
           (\<forall>gid grp. map_of (Groups a) gid = Some grp \<longrightarrow>
              (\<exists>grp1. map_of (Groups a1) gid = Some grp1 \<and>
                 length (Group_Peers grp1) = length (Group_Peers grp) \<and>
                 (\<forall>j<length (Group_Peers grp). Group_Peers grp ! j = K \<longrightarrow> Group_Peers grp1 ! j = newID))) \<and>
           (\<forall>rid rt. map_of (Routes a) rid = Some rt \<and> Route_Peer rt = K \<longrightarrow>
              (\<exists>rt1. map_of (Routes a1) rid = Some rt1 \<and> Route_Peer rt1 = newID))"
proof -
  let ?s = "emptyStore\<lparr>Accounts := File_Accounts f, InstallationID := File_InstallationID f\<rparr>"
  let ?r = "restoreAccounts env (File_Accounts f) ?s 0"
  have mem: "(accountID, a) \<in> set (File_Accounts f)"
    using acc by (rule map_of_SomeD)
  obtain s' n' post where sp: "set post \<subseteq> set (File_Accounts f)"
      "map_of (fst ?r) accountID = Some (fst (restoreAccount env accountID a s' n'))"
      "fst (snd ?r) = fst (snd (restoreAccounts env post (fst (snd (restoreAccount env accountID a s' n')))
                    (snd (snd (restoreAccount env accountID a s' n')))))"
    using restoreAccounts_split [OF accs mem, of env ?s 0] by blast
  let ?ra = "restoreAccount env accountID a s' n'"
  have dist: "distinct (map fst (Peers a))" and fr: "\<And>i. xid_New env i \<notin> fst ` set (Peers a)"
    using fresh mem by force+
  obtain i p1 where b: "n' \<le> i" "i < n' + length (Peers a)"
      "map_of (Peers (fst ?ra)) K = None"
      "map_of (Peers (fst ?ra)) (xid_New env i) = Some p1"
      "Peer_ID p1 = xid_New env i" "Peer_Key p1 = Peer_Key q"
      "PeerID2AccountID (fst (snd ?ra)) (xid_New env i) = Some accountID"
      "\<forall>gid grp. map_of (Groups a) gid = Some grp \<longrightarrow>
              (\<exists>grp1. map_of (Groups (fst ?ra)) gid = Some grp1 \<and>
                 length (Group_Peers grp1) = length (Group_Peers grp) \<and>
                 (\<forall>j<length (Group_Peers grp). Group_Peers grp ! j = K \<longrightarrow> Group_Peers grp1 ! j = xid_New env i))"
      "\<forall>rid rt. map_of (Routes a) rid = Some rt \<and> Route_Peer rt = K \<longrightarrow>
              (\<exists>rt1. map_of (Routes (fst ?ra)) rid = Some rt1 \<and> Route_Peer rt1 = xid_New env i)"
    using restoreAccount_rekeys [OF xid inj dist fr grp peer noid, of n' accountID s'] by blast
  have cnt: "snd (snd ?ra) = n' + length (Peers a)"
    using grp by (auto simp: restoreAccount_counter)
  have later: "xid_New env i \<noteq> xid_New env j" if "snd (snd ?ra) \<le> j" for j
  proof -
    have "i \<noteq> j" using that b(2) cnt by simp
    then show ?thesis using inj by (simp add: inj_eq)
  qed
  have others: "\<forall>kv\<in>set post. xid_New env i \<notin> (\<lambda>kv. Peer_ID (snd kv)) ` set (Peers (snd kv))"
    using fresh sp(1) by blast
  have "PeerID2AccountID (fst (snd ?r)) (xid_New env i) = PeerID2AccountID (fst (snd ?ra)) (xid_New env i)"
    unfolding sp(3) using others later by (rule restoreAccounts_PeerID_keep)
  then have idx: "PeerID2AccountID ((fst (snd ?r))\<lparr>Accounts := fst ?r\<rparr>) (xid_New env i) = Some accountID"
    using b(7) by simp
  have look: "map_of (Accounts ((fst (snd ?r))\<lparr>Accounts := fst ?r\<rparr>)) accountID = Some (fst ?ra)"
    using sp(2) by simp
  show ?thesis
    using restore_Content [of env f] look xid [of i] b(3-6) idx b(8,9) by blast
qed

text \<open>The legacy account with the All group: the new ID is \<open>x\<close>.\<close>

lemma restore_rekeys_legacy_peer_example:
  "\<exists>file1 store1 a1 p1.
     restore exampleEnv True (storeFile [(''a1'', legacyAccount ''a1'' ''All'')]) = (file1, Inr store1) \<and>
     map_of (Accounts store1) ''a1'' = Some a1 \<and>
     map_of (Peers a1) ''pk1'' = None \<and>
     map_of (Peers a1) ''x'' = Some p1 \<and> Peer_ID p1 = ''x'' \<and> Peer_Key p1 = ''pk1'' \<and>
     PeerID2AccountID store1 ''x'' = Some ''a1'' \<and>
     map (\<lambda>kv. Group_Peers (snd kv)) (Groups a1) = [[''x'']] \<and>
     map (\<lambda>kv. Route_Peer (snd kv)) (Routes a1) = [''x'']"
proof -
  have "\<exists>file1 store1 a1 newID p1.
           restore exampleEnv True (Content \<lparr>File_Accounts = [(''a1'', legacyAccount ''a1'' ''All'')], File_InstallationID = ''inst''\<rparr>) = (file1, Inr store1) \<and>
           map_of (Accounts store1) ''a1'' = Some a1 \<and>
           newID \<noteq> '''' \<and>
           map_of (Peers a1) ''pk1'' = None \<and>
           map_of (Peers a1) newID = Some p1 \<and> Peer_ID p1 = newID \<and> Peer_Key p1 = Peer_Key legacyPeer \<and>
           PeerID2AccountID store1 newID = Some ''a1'' \<and>
           (\<forall>gid grp. map_of (Groups (legacyAccount ''a1'' ''All'')) gid = Some grp \<longrightarrow>
              (\<exists>grp1. map_of (Groups a1) gid = Some grp1 \<and>
                 length (Group_Peers grp1) = length (Group_Peers grp) \<and>
                 (\<forall>j<length (Group_Peers grp). Group_Peers grp ! j = ''pk1'' \<longrightarrow> Group_Peers grp1 ! j = newID))) \<and>
           (\<forall>rid rt. map_of (Routes (legacyAccount ''a1'' ''All'')) rid = Some rt \<and> Route_Peer rt = ''pk1'' \<longrightarrow>
              (\<exists>rt1. map_of (Routes a1) rid = Some rt1 \<and> Route_Peer rt1 = newID))"
    using inj_xid_exampleEnv
    by (intro restore_rekeys_legacy_peer)
       (simp_all add: exampleEnv_def legacyAccount_def newAccount_def legacyPeer_def GetGroupAll_def)
  then obtain file1 store1 a1 newID p1 where
      r: "restore exampleEnv True (storeFile [(''a1'', legacyAccount ''a1'' ''All'')]) = (file1, Inr store1)"
    and a1: "map_of (Accounts store1) ''a1'' = Some a1"
    and p: "map_of (Peers a1) ''pk1'' = None" "map_of (Peers a1) newID = Some p1" "Peer_ID p1 = newID"
       "Peer_Key p1 = Peer_Key legacyPeer" "PeerID2AccountID store1 newID = Some ''a1''"
    unfolding storeFile_def by blast
  have e: "map fst (Accounts (projr (snd (restore exampleEnv True (storeFile [(''a1'', legacyAccount ''a1'' ''All'')]))))) = [''a1''] \<and>
      map (\<lambda>kv. map fst (Peers (snd kv)))
        (Accounts (projr (snd (restore exampleEnv True (storeFile [(''a1'', legacyAccount ''a1'' ''All'')]))))) = [[''x'']] \<and>
      map (\<lambda>kv. map (\<lambda>kv. Group_Peers (snd kv)) (Groups (snd kv)))
        (Accounts (projr (snd (restore exampleEnv True (storeFile [(''a1'', legacyAccount ''a1'' ''All'')]))))) = [[[''x'']]] \<and>
      map (\<lambda>kv. map (\<lambda>kv. Route_Peer (snd kv)) (Routes (snd kv)))
        (Accounts (projr (snd (restore exampleEnv True (storeFile [(''a1'', legacyAccount ''a1'' ''All'')]))))) = [[''x'']]"
    by (simp add: restore_eval save_eval legacyAccount_def legacyPeer_def)
  have s1: "projr (snd (restore exampleEnv True (storeFile [(''a1'', legacyAccount ''a1'' ''All'')]))) = store1"
    using r by simp
  obtain kv where kv: "Accounts store1 = [kv]" "fst kv = ''a1''"
    using e unfolding s1 by (cases "Accounts store1") auto
  have "snd kv = a1"
    using a1 kv by (cases kv) simp
  then have acc: "map fst (Peers a1) = [''x''] \<and>
      map (\<lambda>kv. Group_Peers (snd kv)) (Groups a1) = [[''x'']] \<and>
      map (\<lambda>kv. Route_Peer (snd kv)) (Routes a1) = [''x'']"
    using e kv unfolding s1 by simp
  have "(newID, p1) \<in> set (Peers a1)"
    using p(2) by (rule map_of_SomeD)
  then have "newID \<in> fst ` set (Peers a1)"
    by force
  moreover have "set (map fst (Peers a1)) = {''x''}"
    using acc by simp
  ultimately have "newID = ''x''"
    by (simp only: set_map singleton_iff)
  then show ?thesis
    using r a1 p acc by (simp add: legacyPeer_def)
qed

text \<open>
  C4 fails for a legacy account without the All group: \<open>restore\<close> leaves the peer under
  its public key, without an ID and without a login time; the group and the route refer
  to the peer by its public key as before; and the peer-ID index has the entry of the
  empty ID and no other.
\<close>

theorem legacy_peer_without_All_group_keeps_its_key:
  "(case restore exampleEnv True (storeFile [(''a1'', legacyAccount ''a1'' ''devs'')]) of
      (file1, Inr store1) \<Rightarrow>
         map_option Peers (map_of (Accounts store1) ''a1'') = Some [(''pk1'', legacyPeer)] \<and>
         map_option (\<lambda>a. map (\<lambda>kv. Group_Peers (snd kv)) (Groups a)) (map_of (Accounts store1) ''a1'') = Some [[''pk1'']] \<and>
         map_option (\<lambda>a. map (\<lambda>kv. Route_Peer (snd kv)) (Routes a)) (map_of (Accounts store1) ''a1'') = Some [''pk1''] \<and>
         dom (PeerID2AccountID store1) = {''''}
    | (file1, Inl err) \<Rightarrow> False)"
  by (simp add: restore_eval save_eval legacyAccount_def legacyPeer_def dom_def)

end
